theory Spec2Isabelle
  imports Complex_Main "HOL-Library.AList" "HOL-Library.Sublist"
begin

section \<open>Python values\<close>

text \<open>
  The values that travel through the indicator client are what \<^verbatim>\<open>resp.json()\<close>
  produces: \<^verbatim>\<open>None\<close>, booleans, integers, floats, strings, lists and
  dictionaries with string keys. Python's unbounded \<^verbatim>\<open>int\<close> is \<^typ>\<open>int\<close>.
  A finite \<^verbatim>\<open>float\<close> is modelled by the rational number it denotes, and
  arithmetic on floats by exact arithmetic on rationals; the binary rounding of IEEE doubles
  is outside this model. A dictionary is an association list in insertion order whose keys
  are pairwise distinct; lookup returns the first binding of a key.
\<close>

datatype pyval =
    PNone
  | PBool bool
  | PInt int
  | PFloat rat
  | PStr string
  | PList "pyval list"
  | PDict "(string \<times> pyval) list"

text \<open>The exceptions of the modelled code; each \<^verbatim>\<open>raise\<close> is a value \<open>Inl e\<close>.\<close>

datatype exn =
    KeyError
  | TypeError
  | AttributeError
  | IndexError
  | RuntimeError string
  | HTTPError nat
  | Timeout
  | RequestException
  | ExchangeError

text \<open>\<^verbatim>\<open>bool(v)\<close>, the truth value that \<^verbatim>\<open>if v\<close>, \<^verbatim>\<open>not v\<close>,
  \<^verbatim>\<open>v or w\<close> and \<^verbatim>\<open>any\<close> consult.\<close>

fun truthy :: "pyval \<Rightarrow> bool" where
  "truthy PNone = False"
| "truthy (PBool b) = b"
| "truthy (PInt i) = (i \<noteq> 0)"
| "truthy (PFloat r) = (r \<noteq> 0)"
| "truthy (PStr s) = (s \<noteq> [])"
| "truthy (PList xs) = (xs \<noteq> [])"
| "truthy (PDict kvs) = (kvs \<noteq> [])"

section \<open>The indicator cache (taapi\_cache.py)\<close>

text \<open>
  \<^verbatim>\<open>TAAPICache\<close> keeps \<^verbatim>\<open>self.ttl\<close> and the dictionary
  \<^verbatim>\<open>self._cache\<close> from the key string to an entry
  \<^verbatim>\<open>{'timestamp': ..., 'data': ...}\<close>. The reading of \<^verbatim>\<open>time.time()\<close>
  that a method takes is its first argument \<open>now\<close>. Every method returns the cache
  object it leaves behind next to its result.
\<close>

record entry =
  timestamp :: rat
  data :: pyval

record TAAPICache =
  ttl :: rat
  cache :: "(string \<times> entry) list"

definition TAAPICache_init :: "rat \<Rightarrow> TAAPICache" where
  "TAAPICache_init t = \<lparr>ttl = t, cache = []\<rparr>"

text \<open>The key \<^verbatim>\<open>f"{asset}:{interval}"\<close>.\<close>

definition cache_key :: "string \<Rightarrow> string \<Rightarrow> string" where
  "cache_key asset interval = asset @ '':'' @ interval"

definition TAAPICache_get ::
  "rat \<Rightarrow> string \<Rightarrow> string \<Rightarrow> TAAPICache \<Rightarrow> pyval option \<times> TAAPICache" where
  "TAAPICache_get now asset interval self =
     (let key = cache_key asset interval in
      case map_of (cache self) key of
        None \<Rightarrow> (None, self)
      | Some e \<Rightarrow>
          (let age = now - timestamp e in
           if age > ttl self
           then (None, self\<lparr>cache := AList.delete key (cache self)\<rparr>)
           else (Some (data e), self)))"

definition TAAPICache_set ::
  "rat \<Rightarrow> string \<Rightarrow> string \<Rightarrow> pyval \<Rightarrow> TAAPICache \<Rightarrow> TAAPICache" where
  "TAAPICache_set now asset interval d self =
     (let key = cache_key asset interval in
      self\<lparr>cache := AList.update key \<lparr>timestamp = now, data = d\<rparr> (cache self)\<rparr>)"


record cache_stats =
  total_entries :: nat
  active_entries :: nat
  expired_entries :: nat
  ttl_seconds :: rat

text \<open>The loop of \<^verbatim>\<open>stats\<close> over \<^verbatim>\<open>self._cache.values()\<close>, carrying
  the two counters.\<close>

fun stats_loop :: "rat \<Rightarrow> rat \<Rightarrow> entry list \<Rightarrow> nat \<times> nat \<Rightarrow> nat \<times> nat" where
  "stats_loop now t [] (active, expired) = (active, expired)"
| "stats_loop now t (e # es) (active, expired) =
     (let age = now - timestamp e in
      if age \<le> t then stats_loop now t es (active + 1, expired)
      else stats_loop now t es (active, expired + 1))"

definition TAAPICache_stats :: "rat \<Rightarrow> TAAPICache \<Rightarrow> cache_stats \<times> TAAPICache" where
  "TAAPICache_stats now self =
     (let (active, expired) = stats_loop now (ttl self) (map snd (cache self)) (0, 0) in
      (\<lparr>total_entries = length (cache self),
        active_entries = active,
        expired_entries = expired,
        ttl_seconds = ttl self\<rparr>, self))"

text \<open>The dictionary invariant: no key is bound twice. It holds of the empty cache and
  every method keeps it.\<close>

definition wf_cache :: "TAAPICache \<Rightarrow> bool" where
  "wf_cache self = distinct (map fst (cache self))"




section \<open>The shared request layer (taapi\_client.py)\<close>

text \<open>
  What one network attempt does is the environment's: the server answers with a status code
  and a body (\<open>None\<close> when the body is not JSON), the request times out, or it fails in
  another way (connection error). The \<open>k\<close>-th attempt of a call meets \<open>net k\<close>.
\<close>

datatype attempt =
    Response nat "pyval option"
  | TimedOut
  | Failed

text \<open>The body of the \<^verbatim>\<open>try\<close>: the request, \<^verbatim>\<open>raise_for_status()\<close>
  (which raises for a status from 400 to 599) and \<^verbatim>\<open>resp.json()\<close>.\<close>

definition try_request :: "attempt \<Rightarrow> exn + pyval" where
  "try_request a =
     (case a of
        TimedOut \<Rightarrow> Inl Timeout
      | Failed \<Rightarrow> Inl RequestException
      | Response status body \<Rightarrow>
          if 400 \<le> status \<and> status < 600 then Inl (HTTPError status)
          else (case body of None \<Rightarrow> Inl RequestException | Some j \<Rightarrow> Inr j))"

text \<open>What a call leaves behind: the value returned or the exception raised, the number
  of requests sent, and the \<^verbatim>\<open>time.sleep\<close> waits in order.\<close>

record outcome =
  result :: "exn + pyval"
  attempts :: nat
  sleeps :: "rat list"

text \<open>The \<^verbatim>\<open>for attempt in range(retries)\<close> loop from iteration \<open>attempt\<close> on.
  Inside the loop \<open>attempt < retries\<close>, so \<open>retries - 1\<close> is the integer difference.\<close>

function retry_loop ::
  "(nat \<Rightarrow> attempt) \<Rightarrow> nat \<Rightarrow> rat \<Rightarrow> nat \<Rightarrow> rat list \<Rightarrow> outcome" where
  "retry_loop net retries backoff attempt slept =
     (if attempt < retries then
        (case try_request (net attempt) of
           Inr j \<Rightarrow> \<lparr>result = Inr j, attempts = attempt + 1, sleeps = slept\<rparr>
         | Inl (HTTPError status) \<Rightarrow>
             if (status = 429 \<or> status \<ge> 500) \<and> attempt < retries - 1
             then retry_loop net retries backoff (attempt + 1) (slept @ [backoff])
             else \<lparr>result = Inl (HTTPError status), attempts = attempt + 1, sleeps = slept\<rparr>
         | Inl Timeout \<Rightarrow>
             if attempt < retries - 1
             then retry_loop net retries backoff (attempt + 1) (slept @ [backoff])
             else \<lparr>result = Inl Timeout, attempts = attempt + 1, sleeps = slept\<rparr>
         | Inl e \<Rightarrow> \<lparr>result = Inl e, attempts = attempt + 1, sleeps = slept\<rparr>)
      else \<lparr>result = Inl (RuntimeError ''Max retries exceeded''),
             attempts = attempt, sleeps = slept\<rparr>)"
  by pat_completeness auto
termination
  by (relation "measure (\<lambda>(net, retries, backoff, attempt, slept). retries - attempt)") auto

declare retry_loop.simps [simp del]

text \<open>\<^verbatim>\<open>_get_with_retry\<close> and \<^verbatim>\<open>_post_with_retry\<close> run the same loop; they
  differ in the request sent (GET with a 10 s timeout, POST with a 15 s timeout), which is
  the environment's part. Both default to \<^verbatim>\<open>retries=10, backoff=5.0\<close>, and every
  call site in the client uses the defaults.\<close>

definition get_with_retry :: "(nat \<Rightarrow> attempt) \<Rightarrow> nat \<Rightarrow> rat \<Rightarrow> outcome" where
  "get_with_retry net retries backoff = retry_loop net retries backoff 0 []"

definition post_with_retry :: "(nat \<Rightarrow> attempt) \<Rightarrow> nat \<Rightarrow> rat \<Rightarrow> outcome" where
  "post_with_retry net retries backoff = retry_loop net retries backoff 0 []"

text \<open>The failures the policy retries: HTTP 429, HTTP status 500 and above, timeout.\<close>

definition retryable :: "exn + pyval \<Rightarrow> bool" where
  "retryable r =
     (case r of
        Inl (HTTPError status) \<Rightarrow> status = 429 \<or> status \<ge> 500
      | Inl Timeout \<Rightarrow> True
      | _ \<Rightarrow> False)"

section \<open>Normalisation of indicator results (taapi\_client.py)\<close>

text \<open>
  \<^verbatim>\<open>round(x, 4)\<close> on a float rounds the exact value of \<open>x\<close> to four decimals, ties
  to the even neighbour. In the model the result is that decimal number itself (Python
  returns the double nearest to it).
\<close>

definition round_half_even :: "rat \<Rightarrow> int" where
  "round_half_even x =
     (let f = \<lfloor>x\<rfloor>; d = x - of_int f in
      if d < 1 / 2 then f
      else if d > 1 / 2 then f + 1
      else if even f then f else f + 1)"

definition round4 :: "rat \<Rightarrow> rat" where
  "round4 x = of_int (round_half_even (x * 10000)) / 10000"

text \<open>\<^verbatim>\<open>isinstance(v, (int, float))\<close>; \<^verbatim>\<open>bool\<close> is a subclass of
  \<^verbatim>\<open>int\<close>.\<close>

fun is_int_or_float :: "pyval \<Rightarrow> bool" where
  "is_int_or_float (PBool b) = True"
| "is_int_or_float (PInt i) = True"
| "is_int_or_float (PFloat r) = True"
| "is_int_or_float v = False"

text \<open>\<^verbatim>\<open>round(v, 4)\<close>: an integer is returned as it is (a boolean as the integer it
  equals), a float is rounded, anything else raises \<^verbatim>\<open>TypeError\<close>.\<close>

fun py_round4 :: "pyval \<Rightarrow> exn + pyval" where
  "py_round4 (PBool b) = Inr (PInt (if b then 1 else 0))"
| "py_round4 (PInt i) = Inr (PInt i)"
| "py_round4 (PFloat r) = Inr (PFloat (round4 r))"
| "py_round4 v = Inl TypeError"

text \<open>\<^verbatim>\<open>d[key]\<close> on a dictionary raises \<^verbatim>\<open>KeyError\<close> for a missing key.\<close>

definition dict_getitem :: "(string \<times> pyval) list \<Rightarrow> string \<Rightarrow> exn + pyval" where
  "dict_getitem kvs key = (case map_of kvs key of None \<Rightarrow> Inl KeyError | Some v \<Rightarrow> Inr v)"

text \<open>The comprehension
  \<^verbatim>\<open>[round(v, 4) if isinstance(v, (int, float)) else v for v in values]\<close>; an
  exception in an element ends it.\<close>

fun round_values :: "pyval list \<Rightarrow> exn + pyval list" where
  "round_values [] = Inr []"
| "round_values (v # vs) =
     (case (if is_int_or_float v then py_round4 v else Inr v) of
        Inl e \<Rightarrow> Inl e
      | Inr w \<Rightarrow> (case round_values vs of Inl e \<Rightarrow> Inl e | Inr ws \<Rightarrow> Inr (w # ws)))"

definition extract_series :: "pyval \<Rightarrow> string \<Rightarrow> exn + pyval" where
  "extract_series d value_key =
     (if \<not> truthy d then Inr (PList [])
      else case d of
        PDict kvs \<Rightarrow>
          if value_key \<in> fst ` set kvs then
            (case dict_getitem kvs value_key of
               Inl e \<Rightarrow> Inl e
             | Inr values \<Rightarrow>
                 (case values of
                    PList vs \<Rightarrow>
                      (case round_values vs of Inl e \<Rightarrow> Inl e | Inr ws \<Rightarrow> Inr (PList ws))
                  | _ \<Rightarrow> Inr (PList [])))
          else Inr (PList [])
      | _ \<Rightarrow> Inr (PList []))"

definition extract_value :: "pyval \<Rightarrow> string \<Rightarrow> exn + pyval" where
  "extract_value d value_key =
     (if \<not> truthy d then Inr PNone
      else case d of
        PDict kvs \<Rightarrow>
          if value_key \<in> fst ` set kvs then
            (case dict_getitem kvs value_key of
               Inl e \<Rightarrow> Inl e
             | Inr val \<Rightarrow> if is_int_or_float val then py_round4 val else Inr val)
          else Inr PNone
      | _ \<Rightarrow> Inr PNone)"

section \<open>Bulk fetch and the two-horizon bundle (taapi\_client.py)\<close>

text \<open>\<^verbatim>\<open>x.get(key)\<close>: \<^verbatim>\<open>None\<close> for a missing key, and
  \<^verbatim>\<open>AttributeError\<close> when \<open>x\<close> is not a dictionary.\<close>

fun py_get :: "pyval \<Rightarrow> string \<Rightarrow> exn + pyval" where
  "py_get (PDict kvs) key = Inr (case map_of kvs key of None \<Rightarrow> PNone | Some v \<Rightarrow> v)"
| "py_get v key = Inl AttributeError"

text \<open>\<^verbatim>\<open>for item in x\<close>: a list yields its elements, a dictionary its keys, a
  string its characters; anything else raises \<^verbatim>\<open>TypeError\<close>.\<close>

fun py_iter :: "pyval \<Rightarrow> exn + pyval list" where
  "py_iter (PList xs) = Inr xs"
| "py_iter (PDict kvs) = Inr (map (\<lambda>kv. PStr (fst kv)) kvs)"
| "py_iter (PStr s) = Inr (map (\<lambda>c. PStr [c]) s)"
| "py_iter v = Inl TypeError"

text \<open>Lists and dictionaries cannot be dictionary keys.\<close>

fun hashable :: "pyval \<Rightarrow> bool" where
  "hashable (PList xs) = False"
| "hashable (PDict kvs) = False"
| "hashable v = True"

text \<open>
  The \<^verbatim>\<open>results\<close> dictionary of \<^verbatim>\<open>fetch_bulk_indicators\<close> is keyed by
  whatever the response carries under \<^verbatim>\<open>"id"\<close>. Keys are compared as values of
  \<^typ>\<open>pyval\<close>; the caller only ever looks up string ids.
\<close>

type_synonym results = "(pyval \<times> pyval) list"

definition results_get :: "results \<Rightarrow> string \<Rightarrow> pyval" where
  "results_get rs key = (case map_of rs (PStr key) of None \<Rightarrow> PNone | Some v \<Rightarrow> v)"

text \<open>The loop \<^verbatim>\<open>for item in response["data"]\<close>.\<close>

fun parse_items :: "pyval list \<Rightarrow> results \<Rightarrow> exn + results" where
  "parse_items [] rs = Inr rs"
| "parse_items (item # items) rs =
     (case py_get item ''id'' of
        Inl e \<Rightarrow> Inl e
      | Inr indicator_id \<Rightarrow>
          if truthy indicator_id then
            (case py_get item ''result'' of
               Inl e \<Rightarrow> Inl e
             | Inr r \<Rightarrow>
                 if hashable indicator_id
                 then parse_items items (AList.update indicator_id r rs)
                 else Inl TypeError)
          else parse_items items rs)"

definition parse_response :: "pyval \<Rightarrow> exn + results" where
  "parse_response response =
     (case response of
        PDict kvs \<Rightarrow>
          if ''data'' \<in> fst ` set kvs then
            (case dict_getitem kvs ''data'' of
               Inl e \<Rightarrow> Inl e
             | Inr d \<Rightarrow> (case py_iter d of Inl e \<Rightarrow> Inl e | Inr items \<Rightarrow> parse_items items []))
          else Inr []
      | _ \<Rightarrow> Inr [])"

text \<open>
  \<^verbatim>\<open>fetch_bulk_indicators\<close>: one POST through the retry layer, then the parse. The
  whole body stands in \<^verbatim>\<open>try ... except Exception: return {}\<close>. Building the
  payload and the debug logging do not bear on the value returned and are left out.
\<close>

definition fetch_bulk_indicators :: "(nat \<Rightarrow> attempt) \<Rightarrow> results" where
  "fetch_bulk_indicators net =
     (case result (post_with_retry net 10 5) of
        Inl e \<Rightarrow> []
      | Inr response \<Rightarrow> (case parse_response response of Inl e \<Rightarrow> [] | Inr rs \<Rightarrow> rs))"

text \<open>Sequencing of statements that may raise.\<close>

definition and_then :: "exn + 'a \<Rightarrow> ('a \<Rightarrow> exn + 'b) \<Rightarrow> exn + 'b" where
  "and_then m f = (case m of Inl e \<Rightarrow> Inl e | Inr x \<Rightarrow> f x)"

text \<open>\<^verbatim>\<open>result["5m"]\<close> after the four \<^verbatim>\<open>_extract_series\<close> assignments.\<close>

definition bundle_5m :: "results \<Rightarrow> exn + pyval" where
  "bundle_5m bulk_5m =
     and_then (extract_series (results_get bulk_5m ''ema20'') ''value'') (\<lambda>ema20.
     and_then (extract_series (results_get bulk_5m ''macd'') ''valueMACD'') (\<lambda>macd.
     and_then (extract_series (results_get bulk_5m ''rsi7'') ''value'') (\<lambda>rsi7.
     and_then (extract_series (results_get bulk_5m ''rsi14'') ''value'') (\<lambda>rsi14.
     Inr (PDict [(''ema20'', ema20), (''macd'', macd), (''rsi7'', rsi7), (''rsi14'', rsi14)])))))"

text \<open>\<^verbatim>\<open>result["4h"]\<close> after its six assignments.\<close>

definition bundle_4h :: "results \<Rightarrow> exn + pyval" where
  "bundle_4h bulk_4h =
     and_then (extract_value (results_get bulk_4h ''ema20'') ''value'') (\<lambda>ema20.
     and_then (extract_value (results_get bulk_4h ''ema50'') ''value'') (\<lambda>ema50.
     and_then (extract_value (results_get bulk_4h ''atr3'') ''value'') (\<lambda>atr3.
     and_then (extract_value (results_get bulk_4h ''atr14'') ''value'') (\<lambda>atr14.
     and_then (extract_series (results_get bulk_4h ''macd'') ''valueMACD'') (\<lambda>macd.
     and_then (extract_series (results_get bulk_4h ''rsi14'') ''value'') (\<lambda>rsi14.
     Inr (PDict [(''ema20'', ema20), (''ema50'', ema50), (''atr3'', atr3),
                 (''atr14'', atr14), (''macd'', macd), (''rsi14'', rsi14)])))))))"

text \<open>\<^verbatim>\<open>not any([...])\<close> over the indicators of one horizon.\<close>

definition all_empty :: "pyval \<Rightarrow> string list \<Rightarrow> exn + bool" where
  "all_empty b keys =
     (case b of
        PDict kvs \<Rightarrow>
          Inr (\<not> list_ex truthy
                 (map (\<lambda>k. case map_of kvs k of None \<Rightarrow> PNone | Some v \<Rightarrow> v) keys))
      | _ \<Rightarrow> Inl AttributeError)"

text \<open>
  The body of the \<^verbatim>\<open>try\<close> block that follows the extraction: it computes the two
  emptiness flags, logs a warning when either holds, and raises \<^verbatim>\<open>RuntimeError\<close>
  when both hold.
\<close>

definition check_usable :: "string \<Rightarrow> pyval \<Rightarrow> pyval \<Rightarrow> exn + unit" where
  "check_usable asset r5 r4 =
     and_then (all_empty r5 [''ema20'', ''macd'', ''rsi7'', ''rsi14'']) (\<lambda>all_5m_empty.
     and_then (all_empty r4 [''ema20'', ''ema50'', ''atr3'', ''atr14'', ''macd'', ''rsi14''])
       (\<lambda>all_lt_empty.
     if all_5m_empty \<or> all_lt_empty then
       (if all_5m_empty \<and> all_lt_empty
        then Inl (RuntimeError (''TAAPI returned no usable indicators for '' @ asset))
        else Inr ())
     else Inr ()))"

text \<open>
  The client object: \<^verbatim>\<open>self.enable_cache\<close> and \<^verbatim>\<open>self.cache\<close>, which is
  \<^verbatim>\<open>None\<close> when caching is off. The four readings of the clock that the cache
  methods of one call may take are given in order of use.
\<close>

record TAAPIClient =
  enable_cache :: bool
  client_cache :: "TAAPICache option"

record clock =
  at_get_5m :: rat
  at_get_4h :: rat
  at_set_5m :: rat
  at_set_4h :: rat

text \<open>The cache probe at the head of \<^verbatim>\<open>fetch_asset_indicators\<close>: the bundle to
  return at once, if both horizons are cached, and the client after the two reads.\<close>

definition probe_cache ::
  "clock \<Rightarrow> string \<Rightarrow> TAAPIClient \<Rightarrow> pyval option \<times> TAAPIClient" where
  "probe_cache clk asset self =
     (case (if enable_cache self then client_cache self else None) of
        None \<Rightarrow> (None, self)
      | Some c0 \<Rightarrow>
          (let (cached_5m, c1) = TAAPICache_get (at_get_5m clk) asset ''5m'' c0;
               (cached_long_term, c2) = TAAPICache_get (at_get_4h clk) asset ''4h'' c1;
               self' = self\<lparr>client_cache := Some c2\<rparr>
           in case (cached_5m, cached_long_term) of
                (Some b5, Some b4) \<Rightarrow>
                  if truthy b5 \<and> truthy b4
                  then (Some (PDict [(''5m'', b5), (''4h'', b4)]), self')
                  else (None, self')
              | _ \<Rightarrow> (None, self')))"

text \<open>
  \<^verbatim>\<open>fetch_asset_indicators\<close>. \<open>net_5m\<close> and \<open>net_4h\<close> are what the network does
  to the two bulk requests. The exception of the emptiness check is caught by the
  \<^verbatim>\<open>except Exception: pass\<close> that closes its \<^verbatim>\<open>try\<close> block, so both of its
  outcomes continue with the caching and the return. The 30 s sleep between the two
  requests has no bearing on the value and is left out.
\<close>

definition fetch_asset_indicators ::
  "clock \<Rightarrow> (nat \<Rightarrow> attempt) \<Rightarrow> (nat \<Rightarrow> attempt) \<Rightarrow> string \<Rightarrow> TAAPIClient
    \<Rightarrow> (exn + pyval) \<times> TAAPIClient" where
  "fetch_asset_indicators clk net_5m net_4h asset self =
     (case probe_cache clk asset self of
        (Some cached, self1) \<Rightarrow> (Inr cached, self1)
      | (None, self1) \<Rightarrow>
          (case bundle_5m (fetch_bulk_indicators net_5m) of
             Inl e \<Rightarrow> (Inl e, self1)
           | Inr r5 \<Rightarrow>
               (case bundle_4h (fetch_bulk_indicators net_4h) of
                  Inl e \<Rightarrow> (Inl e, self1)
                | Inr r4 \<Rightarrow>
                    (let self2 =
                           (case check_usable asset r5 r4 of
                              Inl e \<Rightarrow> self1
                            | Inr u \<Rightarrow> self1);
                         self3 =
                           (case (if enable_cache self2 then client_cache self2 else None) of
                              None \<Rightarrow> self2
                            | Some c \<Rightarrow>
                                self2\<lparr>client_cache :=
                                  Some (TAAPICache_set (at_set_4h clk) asset ''4h'' r4
                                         (TAAPICache_set (at_set_5m clk) asset ''5m'' r5 c))\<rparr>)
                     in (Inr (PDict [(''5m'', r5), (''4h'', r4)]), self3)))))"

section \<open>Strings\<close>

text \<open>\<^verbatim>\<open>sub in s\<close> on strings: \<open>sub\<close> occurs in \<open>s\<close> as a contiguous run.\<close>

fun str_contains :: "string \<Rightarrow> string \<Rightarrow> bool" where
  "str_contains sub [] = (sub = [])"
| "str_contains sub (c # cs) = (prefix sub (c # cs) \<or> str_contains sub cs)"

text \<open>\<^verbatim>\<open>s.split(sep)[0]\<close> for a one-character separator: the part of \<open>s\<close> before
  the first separator, all of \<open>s\<close> when there is none.\<close>

definition split_first :: "char \<Rightarrow> string \<Rightarrow> string" where
  "split_first sep s = takeWhile (\<lambda>c. c \<noteq> sep) s"

text \<open>\<^verbatim>\<open>s.replace(old, new)\<close>: every occurrence of \<open>old\<close>, found from the left
  without overlap, is replaced by \<open>new\<close>. For the empty \<open>old\<close> Python puts \<open>new\<close>
  before every character and at the end.\<close>

function str_replace :: "string \<Rightarrow> string \<Rightarrow> string \<Rightarrow> string" where
  "str_replace old new s =
     (if old = [] then new @ concat (map (\<lambda>c. c # new) s)
      else if s = [] then []
      else if prefix old s then new @ str_replace old new (drop (length old) s)
      else hd s # str_replace old new (tl s))"
  by pat_completeness auto
termination
  by (relation "measure (\<lambda>(old, new, s). length s)") auto

declare str_replace.simps [simp del]

text \<open>\<^verbatim>\<open>str(n)\<close> for an integer: its decimal digits, with a minus sign when
  negative.\<close>

fun str_nat :: "nat \<Rightarrow> string" where
  "str_nat n =
     (if n < 10 then [char_of (48 + n)]
      else str_nat (n div 10) @ [char_of (48 + n mod 10)])"

declare str_nat.simps [simp del]

definition str_int :: "int \<Rightarrow> string" where
  "str_int i = (if i < 0 then CHR ''-'' # str_nat (nat (- i)) else str_nat (nat i))"

text \<open>\<^verbatim>\<open>int(x)\<close> for a float: truncation towards zero.\<close>

definition py_int :: "rat \<Rightarrow> int" where
  "py_int x = (if x \<ge> 0 then \<lfloor>x\<rfloor> else \<lceil>x\<rceil>)"

section \<open>The exchange translator (okx\_api.py)\<close>

subsection \<open>Symbol mapping\<close>

definition get_symbol :: "string \<Rightarrow> string" where
  "get_symbol asset =
     (if str_contains ''/'' asset then asset else asset @ ''/USDT:USDT'')"

definition get_inst_id :: "string \<Rightarrow> string" where
  "get_inst_id asset =
     (if str_contains ''-SWAP'' asset then asset else asset @ ''-USDT-SWAP'')"

definition get_asset_from_symbol :: "string \<Rightarrow> string" where
  "get_asset_from_symbol symbol =
     (if str_contains ''/'' symbol then split_first CHR ''/'' symbol
      else if str_contains ''-USDT-SWAP'' symbol then str_replace ''-USDT-SWAP'' [] symbol
      else symbol)"

subsection \<open>The exchange and the session\<close>

text \<open>
  The values of the parameter dictionaries sent to the exchange are strings. The string
  \<^verbatim>\<open>str(x)\<close> of a float \<open>x\<close> is kept as \<open>FloatStr x\<close>; its digits are not
  computed.
\<close>

datatype arg = Str string | FloatStr rat

type_synonym params = "(string \<times> arg) list"

text \<open>The requests that reach the exchange, with their arguments.\<close>

datatype request =
    LoadMarkets
  | GetAccountConfig
  | CreateOrder string string string int params
  | PostTradeOrderAlgo params

text \<open>What a market's info holds under \<^verbatim>\<open>'contractSize'\<close>: no such key,
  \<^verbatim>\<open>None\<close>, or a number.\<close>

datatype contract_size = Missing | Null | Number rat

text \<open>
  The behaviour of the CCXT client during one operation: whether
  \<^verbatim>\<open>load_markets()\<close> fails, what the account-config query answers, what
  \<^verbatim>\<open>market(symbol)\<close> returns, and what the two order endpoints answer.
\<close>

record exchange =
  load_markets :: "exn option"
  private_get_account_config :: "exn + pyval"
  market :: "string \<Rightarrow> exn + contract_size"
  create_order :: "string \<Rightarrow> string \<Rightarrow> string \<Rightarrow> int \<Rightarrow> params \<Rightarrow> exn + pyval"
  private_post_trade_order_algo :: "params \<Rightarrow> exn + pyval"

text \<open>
  The session: \<^verbatim>\<open>self.markets_loaded\<close> and \<^verbatim>\<open>self._position_mode\<close>
  (\<open>None\<close> while unknown), and the requests sent so far, oldest first. The field
  \<^verbatim>\<open>_ct_val_cache\<close> is never read or written by the code and is left out.
\<close>

record OKXAPI =
  markets_loaded :: bool
  position_mode :: "string option"
  sent :: "request list"

definition OKXAPI_init :: OKXAPI where
  "OKXAPI_init = \<lparr>markets_loaded = False, position_mode = None, sent = []\<rparr>"

definition ensure_markets :: "exchange \<Rightarrow> OKXAPI \<Rightarrow> (exn + unit) \<times> OKXAPI" where
  "ensure_markets ex self =
     (if \<not> markets_loaded self then
        (case load_markets ex of
           None \<Rightarrow> (Inr (), self\<lparr>markets_loaded := True, sent := sent self @ [LoadMarkets]\<rparr>)
         | Some e \<Rightarrow> (Inl e, self\<lparr>sent := sent self @ [LoadMarkets]\<rparr>))
      else (Inr (), self))"

text \<open>\<^verbatim>\<open>float(market.get('contractSize', 1.0))\<close>; \<^verbatim>\<open>float(None)\<close> raises.\<close>

fun float_contract_size :: "contract_size \<Rightarrow> exn + rat" where
  "float_contract_size Missing = Inr 1"
| "float_contract_size Null = Inl TypeError"
| "float_contract_size (Number r) = Inr r"

text \<open>The \<^verbatim>\<open>try\<close> block of \<^verbatim>\<open>_get_contract_value\<close>: any exception gives 1.0.\<close>

definition contract_value :: "exchange \<Rightarrow> string \<Rightarrow> rat" where
  "contract_value ex symbol =
     (case and_then (market ex symbol) float_contract_size of
        Inl e \<Rightarrow> 1
      | Inr v \<Rightarrow> v)"

definition get_contract_value ::
  "exchange \<Rightarrow> string \<Rightarrow> OKXAPI \<Rightarrow> (exn + rat) \<times> OKXAPI" where
  "get_contract_value ex symbol self =
     (case ensure_markets ex self of
        (Inl e, self1) \<Rightarrow> (Inl e, self1)
      | (Inr u, self1) \<Rightarrow> (Inr (contract_value ex symbol), self1))"

subsection \<open>Position mode\<close>

text \<open>\<^verbatim>\<open>x[0]\<close>: the first element of a list, the first character of a string;
  \<^verbatim>\<open>IndexError\<close> when empty, \<^verbatim>\<open>KeyError\<close> on a dictionary (whose keys
  are strings), \<^verbatim>\<open>TypeError\<close> on anything else.\<close>

fun py_first :: "pyval \<Rightarrow> exn + pyval" where
  "py_first (PList []) = Inl IndexError"
| "py_first (PList (x # xs)) = Inr x"
| "py_first (PStr []) = Inl IndexError"
| "py_first (PStr (c # cs)) = Inr (PStr [c])"
| "py_first (PDict kvs) = Inl KeyError"
| "py_first v = Inl TypeError"

text \<open>
  The \<^verbatim>\<open>try\<close> block of \<^verbatim>\<open>_ensure_position_mode\<close>, from the answer of the
  query to the mode it stores: \<^verbatim>\<open>posMode\<close> when it is one of the two known modes,
  \<^verbatim>\<open>"net_mode"\<close> otherwise.
\<close>

definition detect_position_mode :: "exn + pyval \<Rightarrow> exn + string" where
  "detect_position_mode answer =
     and_then answer (\<lambda>res.
     and_then (py_get res ''data'') (\<lambda>d.
     let data_list = (if truthy d then d else PList []) in
     and_then (if truthy data_list then py_first data_list else Inr (PDict [])) (\<lambda>dat.
     and_then (py_get dat ''posMode'') (\<lambda>pos_mode.
     if pos_mode = PStr ''net_mode'' \<or> pos_mode = PStr ''long_short_mode''
     then (case pos_mode of PStr m \<Rightarrow> Inr m | _ \<Rightarrow> Inr ''net_mode'')
     else Inr ''net_mode''))))"

definition ensure_position_mode :: "exchange \<Rightarrow> OKXAPI \<Rightarrow> OKXAPI" where
  "ensure_position_mode ex self =
     (if position_mode self \<noteq> None then self
      else
        (let self1 = self\<lparr>sent := sent self @ [GetAccountConfig]\<rparr> in
         case detect_position_mode (private_get_account_config ex) of
           Inr m \<Rightarrow> self1\<lparr>position_mode := Some m\<rparr>
         | Inl e \<Rightarrow> self1\<lparr>position_mode := Some ''net_mode''\<rparr>))"

subsection \<open>Order placement\<close>

text \<open>
  \<^verbatim>\<open>_place_market_order(asset, side, amount)\<close>. The answer for a size of zero
  contracts is the dictionary \<^verbatim>\<open>{"code": "error", "msg": "Amount too small"}\<close>,
  returned before any order request. An exception of \<^verbatim>\<open>create_order\<close> is logged
  and raised again.

  In this and the two placements below, \<open>amount / ct_val\<close> is the exact quotient. Python
  rounds the quotient to the nearest double before \<^verbatim>\<open>int()\<close> truncates it, which
  changes the count where the exact quotient lies within rounding distance of an integer
  (0.3 / 0.1 is 2.9999999999999996 in doubles, and truncates to 2). The size is therefore
  read below only where the rounding cannot matter: for \<open>0 < amount < ct_val\<close>, where
  the double quotient is below 1 as well and truncates to 0, and for \<open>ct_val \<le> 0\<close>,
  where no division takes place.
\<close>

definition place_market_order ::
  "exchange \<Rightarrow> string \<Rightarrow> string \<Rightarrow> rat \<Rightarrow> OKXAPI \<Rightarrow> (exn + pyval) \<times> OKXAPI" where
  "place_market_order ex asset side amount self =
     (case ensure_markets ex self of
        (Inl e, self1) \<Rightarrow> (Inl e, self1)
      | (Inr u, self1) \<Rightarrow>
          (let self2 = ensure_position_mode ex self1;
               symbol = get_symbol asset
           in case get_contract_value ex symbol self2 of
                (Inl e, self3) \<Rightarrow> (Inl e, self3)
              | (Inr ct_val, self3) \<Rightarrow>
                  (let sz_contracts = (if ct_val > 0 then py_int (amount / ct_val) else 1) in
                   if sz_contracts = 0
                   then (Inr (PDict [(''code'', PStr ''error''),
                                     (''msg'', PStr ''Amount too small'')]), self3)
                   else
                     (let params =
                            [(''tdMode'', Str ''cross'')]
                            @ (if position_mode self3 = Some ''long_short_mode''
                               then [(''posSide'',
                                      Str (if side = ''buy'' then ''long'' else ''short''))]
                               else [])
                      in (create_order ex symbol ''market'' side sz_contracts params,
                          self3\<lparr>sent := sent self3
                             @ [CreateOrder symbol ''market'' side sz_contracts params]\<rparr>)))))"

definition place_buy_order ::
  "exchange \<Rightarrow> string \<Rightarrow> rat \<Rightarrow> OKXAPI \<Rightarrow> (exn + pyval) \<times> OKXAPI" where
  "place_buy_order ex asset amount self = place_market_order ex asset ''buy'' amount self"

definition place_sell_order ::
  "exchange \<Rightarrow> string \<Rightarrow> rat \<Rightarrow> OKXAPI \<Rightarrow> (exn + pyval) \<times> OKXAPI" where
  "place_sell_order ex asset amount self = place_market_order ex asset ''sell'' amount self"

text \<open>
  \<^verbatim>\<open>place_take_profit(asset, is_buy, amount, tp_price)\<close>; \<open>is_buy\<close> tells whether
  the position being protected is long.
\<close>

definition place_take_profit ::
  "exchange \<Rightarrow> string \<Rightarrow> bool \<Rightarrow> rat \<Rightarrow> rat \<Rightarrow> OKXAPI \<Rightarrow> (exn + pyval) \<times> OKXAPI" where
  "place_take_profit ex asset is_buy amount tp_price self =
     (case ensure_markets ex self of
        (Inl e, self1) \<Rightarrow> (Inl e, self1)
      | (Inr u, self1) \<Rightarrow>
          (let self2 = ensure_position_mode ex self1;
               inst_id = get_inst_id asset;
               symbol = get_symbol asset
           in case get_contract_value ex symbol self2 of
                (Inl e, self3) \<Rightarrow> (Inl e, self3)
              | (Inr ct_val, self3) \<Rightarrow>
                  (let sz_contracts =
                         (if ct_val > 0 then str_int (py_int (amount / ct_val)) else ''1'');
                       side = (if is_buy then ''sell'' else ''buy'');
                       params =
                         [(''instId'', Str inst_id),
                          (''tdMode'', Str ''cross''),
                          (''side'', Str side),
                          (''ordType'', Str ''conditional''),
                          (''sz'', Str sz_contracts),
                          (''tpTriggerPx'', FloatStr tp_price),
                          (''tpOrdPx'', Str ''-1'')]
                         @ (if position_mode self3 = Some ''long_short_mode''
                            then [(''posSide'', Str (if is_buy then ''long'' else ''short''))]
                            else [])
                   in (private_post_trade_order_algo ex params,
                       self3\<lparr>sent := sent self3 @ [PostTradeOrderAlgo params]\<rparr>))))"

definition place_stop_loss ::
  "exchange \<Rightarrow> string \<Rightarrow> bool \<Rightarrow> rat \<Rightarrow> rat \<Rightarrow> OKXAPI \<Rightarrow> (exn + pyval) \<times> OKXAPI" where
  "place_stop_loss ex asset is_buy amount sl_price self =
     (case ensure_markets ex self of
        (Inl e, self1) \<Rightarrow> (Inl e, self1)
      | (Inr u, self1) \<Rightarrow>
          (let self2 = ensure_position_mode ex self1;
               inst_id = get_inst_id asset;
               symbol = get_symbol asset
           in case get_contract_value ex symbol self2 of
                (Inl e, self3) \<Rightarrow> (Inl e, self3)
              | (Inr ct_val, self3) \<Rightarrow>
                  (let sz_contracts =
                         (if ct_val > 0 then str_int (py_int (amount / ct_val)) else ''1'');
                       side = (if is_buy then ''sell'' else ''buy'');
                       params =
                         [(''instId'', Str inst_id),
                          (''tdMode'', Str ''cross''),
                          (''side'', Str side),
                          (''ordType'', Str ''conditional''),
                          (''sz'', Str sz_contracts),
                          (''slTriggerPx'', FloatStr sl_price),
                          (''slOrdPx'', Str ''-1'')]
                         @ (if position_mode self3 = Some ''long_short_mode''
                            then [(''posSide'', Str (if is_buy then ''long'' else ''short''))]
                            else [])
                   in (private_post_trade_order_algo ex params,
                       self3\<lparr>sent := sent self3 @ [PostTradeOrderAlgo params]\<rparr>))))"

section \<open>Properties of the cache\<close>



lemma wf_cache_get: "wf_cache c \<Longrightarrow> wf_cache (snd (TAAPICache_get now a i c))"
  by (auto simp: wf_cache_def TAAPICache_get_def Let_def distinct_delete split: option.splits)

lemma stats_loop_count:
  "stats_loop now t es (a, x) =
     (a + length (filter (\<lambda>e. now - timestamp e \<le> t) es),
      x + length (filter (\<lambda>e. \<not> now - timestamp e \<le> t) es))"
  by (induction es arbitrary: a x) (simp_all add: Let_def)


text \<open>
  Claim C7. At every cache state and every time of observation, \<^verbatim>\<open>stats()\<close> reports
  \<^verbatim>\<open>total_entries\<close> equal to \<^verbatim>\<open>active_entries\<close> plus
  \<^verbatim>\<open>expired_entries\<close>; the active entries are exactly those whose age is at most
  the ttl, the expired ones are the others; and the cache left behind by the call is the
  cache it was called on, expired entries included.
\<close>

theorem stats_total_and_pure:
  "total_entries (fst (TAAPICache_stats now c))
     = active_entries (fst (TAAPICache_stats now c))
       + expired_entries (fst (TAAPICache_stats now c))
   \<and> active_entries (fst (TAAPICache_stats now c))
     = length (filter (\<lambda>e. now - timestamp e \<le> ttl c) (map snd (cache c)))
   \<and> expired_entries (fst (TAAPICache_stats now c))
     = length (filter (\<lambda>e. now - timestamp e > ttl c) (map snd (cache c)))
   \<and> snd (TAAPICache_stats now c) = c"
proof -
  have "length (cache c)
        = length (filter (\<lambda>e. now - timestamp e \<le> ttl c) (map snd (cache c)))
          + length (filter (\<lambda>e. \<not> now - timestamp e \<le> ttl c) (map snd (cache c)))"
    using sum_length_filter_compl [of "\<lambda>e. now - timestamp e \<le> ttl c" "map snd (cache c)"]
    by simp
  then show ?thesis
    by (simp add: TAAPICache_stats_def stats_loop_count not_le)
qed











section \<open>Properties of the request layer\<close>

lemma retry_loop_step:
  "attempt < retries - 1 \<Longrightarrow> retryable (try_request (net attempt)) \<Longrightarrow>
   retry_loop net retries backoff attempt slept
     = retry_loop net retries backoff (attempt + 1) (slept @ [backoff])"
  by (subst retry_loop.simps) (auto simp: retryable_def split: sum.splits exn.splits)

lemma retry_loop_stop:
  "attempt < retries \<Longrightarrow>
   \<not> (attempt < retries - 1 \<and> retryable (try_request (net attempt))) \<Longrightarrow>
   retry_loop net retries backoff attempt slept
     = \<lparr>result = try_request (net attempt), attempts = attempt + 1, sleeps = slept\<rparr>"
  by (subst retry_loop.simps) (auto simp: retryable_def split: sum.splits exn.splits)

lemma retry_loop_spec:
  "a < r \<Longrightarrow>
   a < attempts (retry_loop net r b a sl)
   \<and> attempts (retry_loop net r b a sl) \<le> r
   \<and> sleeps (retry_loop net r b a sl)
       = sl @ replicate (attempts (retry_loop net r b a sl) - 1 - a) b
   \<and> (\<forall>k. a \<le> k \<and> k < attempts (retry_loop net r b a sl) - 1
          \<longrightarrow> retryable (try_request (net k)))
   \<and> result (retry_loop net r b a sl)
       = try_request (net (attempts (retry_loop net r b a sl) - 1))
   \<and> (attempts (retry_loop net r b a sl) < r
        \<longrightarrow> \<not> retryable (try_request (net (attempts (retry_loop net r b a sl) - 1))))"
proof (induction "r - a" arbitrary: a sl)
  case 0
  then show ?case by simp
next
  case (Suc d)
  show ?case
  proof (cases "a < r - 1 \<and> retryable (try_request (net a))")
    case True
    then have step: "retry_loop net r b a sl = retry_loop net r b (a + 1) (sl @ [b])"
      by (simp add: retry_loop_step)
    have "d = r - (a + 1)" and "a + 1 < r"
      using Suc.hyps(2) True by auto
    then have IH: "a + 1 < attempts (retry_loop net r b (a + 1) (sl @ [b]))
       \<and> attempts (retry_loop net r b (a + 1) (sl @ [b])) \<le> r
       \<and> sleeps (retry_loop net r b (a + 1) (sl @ [b]))
           = (sl @ [b]) @ replicate (attempts (retry_loop net r b (a + 1) (sl @ [b])) - 1 - (a + 1)) b
       \<and> (\<forall>k. a + 1 \<le> k \<and> k < attempts (retry_loop net r b (a + 1) (sl @ [b])) - 1
              \<longrightarrow> retryable (try_request (net k)))
       \<and> result (retry_loop net r b (a + 1) (sl @ [b]))
           = try_request (net (attempts (retry_loop net r b (a + 1) (sl @ [b])) - 1))
       \<and> (attempts (retry_loop net r b (a + 1) (sl @ [b])) < r
            \<longrightarrow> \<not> retryable (try_request (net (attempts (retry_loop net r b (a + 1) (sl @ [b])) - 1))))"
      using Suc.hyps(1) [of "a + 1" "sl @ [b]"] by blast
    define n where "n = attempts (retry_loop net r b (a + 1) (sl @ [b]))"
    have n: "a + 1 < n" using IH by (simp add: n_def)
    then have rep: "replicate (n - 1 - a) b = b # replicate (n - 1 - (a + 1)) b"
      by (cases "n - 1 - a") auto
    have all: "\<forall>k. a \<le> k \<and> k < n - 1 \<longrightarrow> retryable (try_request (net k))"
    proof (intro allI impI)
      fix k assume k: "a \<le> k \<and> k < n - 1"
      show "retryable (try_request (net k))"
      proof (cases "k = a")
        case True
        with \<open>a < r - 1 \<and> retryable (try_request (net a))\<close> show ?thesis by simp
      next
        case False
        with k IH show ?thesis by (simp add: n_def)
      qed
    qed
    show ?thesis
      unfolding step using IH n rep all by (simp add: n_def)
  next
    case False
    then have stop: "retry_loop net r b a sl
          = \<lparr>result = try_request (net a), attempts = a + 1, sleeps = sl\<rparr>"
      using Suc.prems by (simp add: retry_loop_stop)
    show ?thesis using False Suc.prems by (auto simp: stop)
  qed
qed


text \<open>
  Claim C6. A call of the request layer with the default budget, GET or POST, sends between
  one and ten requests and sleeps the fixed backoff of 5 s between consecutive ones. Every
  request but the last failed with HTTP 429, a status of 500 or more, or a timeout; while
  budget remains such a failure is retried. What the caller gets is the outcome of the last
  request, so a failure of the tenth attempt is raised. A 4xx response other than 429 is
  never followed by another request: it is the last one and its error is raised.
\<close>

theorem retry_policy:
  "out \<in> {get_with_retry net 10 5, post_with_retry net 10 5} \<Longrightarrow>
     1 \<le> attempts out \<and> attempts out \<le> 10
   \<and> sleeps out = replicate (attempts out - 1) 5
   \<and> (\<forall>k < attempts out - 1. retryable (try_request (net k)))
   \<and> (attempts out < 10 \<longrightarrow> \<not> retryable (try_request (net (attempts out - 1))))
   \<and> result out = try_request (net (attempts out - 1))
   \<and> (\<forall>k status. k < attempts out \<and> try_request (net k) = Inl (HTTPError status)
          \<and> status \<noteq> 429 \<and> status < 500
        \<longrightarrow> attempts out = k + 1 \<and> result out = Inl (HTTPError status))"
proof -
  assume "out \<in> {get_with_retry net 10 5, post_with_retry net 10 5}"
  then have out: "out = retry_loop net 10 5 0 []"
    by (auto simp: get_with_retry_def post_with_retry_def)
  have spec: "0 < attempts out \<and> attempts out \<le> 10
     \<and> sleeps out = [] @ replicate (attempts out - 1 - 0) 5
     \<and> (\<forall>k. 0 \<le> k \<and> k < attempts out - 1 \<longrightarrow> retryable (try_request (net k)))
     \<and> result out = try_request (net (attempts out - 1))
     \<and> (attempts out < 10 \<longrightarrow> \<not> retryable (try_request (net (attempts out - 1))))"
    unfolding out by (rule retry_loop_spec) simp
  have first: "attempts out = k + 1 \<and> result out = Inl (HTTPError status)"
    if h: "k < attempts out \<and> try_request (net k) = Inl (HTTPError status)
           \<and> status \<noteq> 429 \<and> status < 500" for k status
  proof -
    from h have "\<not> retryable (try_request (net k))"
      by (simp add: retryable_def)
    with spec have "\<not> k < attempts out - 1" by auto
    with h have "k = attempts out - 1" by arith
    with h spec show ?thesis by auto
  qed
  from spec first show ?thesis by auto
qed

lemma retry_example:
  "retry_loop (\<lambda>k. if k < 2 then Response 429 None else Response 404 None) 10 5 0 []
     = \<lparr>result = Inl (HTTPError 404), attempts = 3, sleeps = [5, 5]\<rparr>"
proof -
  let ?net = "\<lambda>k::nat. if k < 2 then Response 429 None else Response 404 None"
  have "retry_loop ?net 10 5 0 [] = retry_loop ?net 10 5 (0 + 1) ([] @ [5])"
    by (rule retry_loop_step) (simp_all add: retryable_def try_request_def)
  also have "\<dots> = retry_loop ?net 10 5 1 [5]" by simp
  also have "\<dots> = retry_loop ?net 10 5 (1 + 1) ([5] @ [5])"
    by (rule retry_loop_step) (simp_all add: retryable_def try_request_def)
  also have "\<dots> = retry_loop ?net 10 5 2 [5, 5]" by (simp add: numeral_2_eq_2)
  also have "\<dots> = \<lparr>result = try_request (?net 2), attempts = 2 + 1, sleeps = [5, 5]\<rparr>"
    by (rule retry_loop_stop) (simp_all add: retryable_def try_request_def)
  also have "\<dots> = \<lparr>result = Inl (HTTPError 404), attempts = 3, sleeps = [5, 5]\<rparr>"
    by (simp add: try_request_def)
  finally show ?thesis .
qed

theorem retry_policy_witness:
  "get_with_retry (\<lambda>k. if k < 2 then Response 429 None else Response 404 None) 10 5
     \<in> {get_with_retry (\<lambda>k. if k < 2 then Response 429 None else Response 404 None) 10 5,
         post_with_retry (\<lambda>k. if k < 2 then Response 429 None else Response 404 None) 10 5}
   \<and> attempts (get_with_retry (\<lambda>k. if k < 2 then Response 429 None else Response 404 None) 10 5) = 3
   \<and> sleeps (get_with_retry (\<lambda>k. if k < 2 then Response 429 None else Response 404 None) 10 5) = [5, 5]
   \<and> result (get_with_retry (\<lambda>k. if k < 2 then Response 429 None else Response 404 None) 10 5)
       = Inl (HTTPError 404)
   \<and> retryable (try_request (Response 429 None))
   \<and> \<not> retryable (try_request (Response 404 None))"
  using retry_policy [of "get_with_retry (\<lambda>k. if k < 2 then Response 429 None else Response 404 None) 10 5"
                         "\<lambda>k. if k < 2 then Response 429 None else Response 404 None"]
  by (simp add: get_with_retry_def retry_example retryable_def try_request_def)

section \<open>Properties of the normalisation\<close>

lemma round_values_total:
  "round_values vs =
     Inr (map (\<lambda>v. case v of PBool b \<Rightarrow> PInt (if b then 1 else 0)
                      | PFloat r \<Rightarrow> PFloat (round4 r) | _ \<Rightarrow> v) vs)"
proof (induction vs)
  case Nil
  then show ?case by simp
next
  case (Cons v vs)
  then show ?case by (cases v) simp_all
qed

lemma map_of_in_keys: "(k \<in> fst ` set kvs) = (map_of kvs k \<noteq> None)"
  by (simp add: map_of_eq_None_iff)

lemma extract_series_closed:
  "extract_series d k =
     Inr (PList (case d of
                   PDict kvs \<Rightarrow>
                     (case map_of kvs k of
                        Some (PList vs) \<Rightarrow>
                          map (\<lambda>v. case v of PBool b \<Rightarrow> PInt (if b then 1 else 0)
                                        | PFloat r \<Rightarrow> PFloat (round4 r) | _ \<Rightarrow> v) vs
                      | _ \<Rightarrow> [])
                 | _ \<Rightarrow> []))"
proof (cases d)
  case (PDict kvs)
  show ?thesis
  proof (cases "map_of kvs k")
    case None
    with PDict show ?thesis
      by (simp add: extract_series_def map_of_in_keys)
  next
    case (Some v)
    then have "kvs \<noteq> []" by auto
    with PDict Some show ?thesis
      by (cases v) (simp_all add: extract_series_def map_of_in_keys dict_getitem_def round_values_total)
  qed
qed (simp_all add: extract_series_def)

lemma extract_value_closed:
  "extract_value d k =
     Inr (case d of
            PDict kvs \<Rightarrow>
              (case map_of kvs k of
                 None \<Rightarrow> PNone
               | Some v \<Rightarrow> (case v of PBool b \<Rightarrow> PInt (if b then 1 else 0)
                                   | PFloat r \<Rightarrow> PFloat (round4 r) | _ \<Rightarrow> v))
          | _ \<Rightarrow> PNone)"
proof (cases d)
  case (PDict kvs)
  show ?thesis
  proof (cases "map_of kvs k")
    case None
    with PDict show ?thesis
      by (simp add: extract_value_def map_of_in_keys)
  next
    case (Some v)
    then have "kvs \<noteq> []" by auto
    with PDict Some show ?thesis
      by (cases v) (simp_all add: extract_value_def map_of_in_keys dict_getitem_def)
  qed
qed (simp_all add: extract_value_def)

lemma round_half_even_near: "\<bar>of_int (round_half_even x) - x\<bar> \<le> 1 / 2"
proof -
  define f where "f = (of_int \<lfloor>x\<rfloor> :: rat)"
  have b: "f \<le> x" "x < f + 1"
    unfolding f_def by linarith+
  consider (lo) "x - f < 1 / 2" | (hi) "x - f > 1 / 2" | (tie) "x - f = 1 / 2"
    by linarith
  then show ?thesis
  proof cases
    case lo
    then have r: "rat_of_int (round_half_even x) = f"
      by (simp add: round_half_even_def Let_def f_def)
    show ?thesis unfolding r using lo b by linarith
  next
    case hi
    then have r: "rat_of_int (round_half_even x) = f + 1"
      by (simp add: round_half_even_def Let_def f_def)
    show ?thesis unfolding r using hi b by linarith
  next
    case tie
    then have "rat_of_int (round_half_even x) = f \<or> rat_of_int (round_half_even x) = f + 1"
      by (simp add: round_half_even_def Let_def f_def)
    then show ?thesis using tie b by (elim disjE) (simp only:, linarith)+
  qed
qed

lemma round4_near: "\<bar>round4 x - x\<bar> \<le> 1 / 20000"
proof -
  have "\<bar>of_int (round_half_even (x * 10000)) - x * 10000\<bar> \<le> 1 / 2"
    by (rule round_half_even_near)
  then have "\<bar>of_int (round_half_even (x * 10000)) / 10000 - x\<bar> * 10000 \<le> 1 / 2"
    by (simp add: abs_if field_simps split: if_splits)
  then show ?thesis
    by (simp add: round4_def)
qed

lemma series_example:
  "extract_series (PDict [(''value'', PList [PFloat (123456 / 100000), PInt 2])]) ''value''
     = Inr (PList [PFloat (12346 / 10000), PInt 2])"
  by code_simp

text \<open>
  Claim C8. Normalisation never raises. \<^verbatim>\<open>_extract_series\<close> always returns a list:
  when the response is a dictionary whose named key holds a list, that list in the received
  order with every float rounded to four decimals and every integer kept (a boolean, which
  Python counts as an integer, becomes the integer it equals; other elements are kept as
  they are); in every other case (response missing, empty, not a dictionary, key missing,
  value not a list) the empty list. \<^verbatim>\<open>_extract_value\<close> returns the value under the
  named key, rounded in the same way when it is a number, and \<^verbatim>\<open>None\<close> when the
  response or the key is missing. Rounding to four decimals gives a multiple of 0.0001 at
  distance at most 0.00005. The response \<^verbatim>\<open>{"value": [1.23456, 2]}\<close> gives
  \<^verbatim>\<open>[1.2346, 2]\<close>.
\<close>

theorem normalization_total:
  "extract_series d k =
     Inr (PList (case d of
                   PDict kvs \<Rightarrow>
                     (case map_of kvs k of
                        Some (PList vs) \<Rightarrow>
                          map (\<lambda>v. case v of PBool b \<Rightarrow> PInt (if b then 1 else 0)
                                        | PFloat r \<Rightarrow> PFloat (round4 r) | _ \<Rightarrow> v) vs
                      | _ \<Rightarrow> [])
                 | _ \<Rightarrow> []))
   \<and> extract_value d k =
     Inr (case d of
            PDict kvs \<Rightarrow>
              (case map_of kvs k of
                 None \<Rightarrow> PNone
               | Some v \<Rightarrow> (case v of PBool b \<Rightarrow> PInt (if b then 1 else 0)
                                   | PFloat r \<Rightarrow> PFloat (round4 r) | _ \<Rightarrow> v))
          | _ \<Rightarrow> PNone)
   \<and> (\<exists>n::int. round4 x = of_int n / 10000) \<and> \<bar>round4 x - x\<bar> \<le> 1 / 20000
   \<and> extract_series (PDict [(''value'', PList [PFloat (123456 / 100000), PInt 2])]) ''value''
       = Inr (PList [PFloat (12346 / 10000), PInt 2])"
  using extract_series_closed [of d k] extract_value_closed [of d k] round4_near [of x]
    series_example
  by (auto simp: round4_def)

section \<open>Properties of the two-horizon fetch\<close>

lemma bundle_5m_total: "\<exists>v. bundle_5m rs = Inr v"
  by (simp add: bundle_5m_def and_then_def extract_series_closed)

lemma bundle_4h_total: "\<exists>v. bundle_4h rs = Inr v"
  by (simp add: bundle_4h_def and_then_def extract_series_closed extract_value_closed)

lemma fetch_never_raises:
  "\<exists>v. fst (fetch_asset_indicators clk net_5m net_4h asset self) = Inr v"
proof -
  obtain r5 where r5: "bundle_5m (fetch_bulk_indicators net_5m) = Inr r5"
    using bundle_5m_total by blast
  obtain r4 where r4: "bundle_4h (fetch_bulk_indicators net_4h) = Inr r4"
    using bundle_4h_total by blast
  show ?thesis
    by (cases "probe_cache clk asset self")
       (auto simp: fetch_asset_indicators_def r5 r4 Let_def split: option.splits)
qed

lemma post_empty_data:
  "result (post_with_retry (\<lambda>k. Response 200 (Some (PDict [(''data'', PList [])]))) 10 5)
     = Inr (PDict [(''data'', PList [])])"
  by (simp add: post_with_retry_def retry_loop.simps [of _ _ _ 0] try_request_def)

lemma bulk_empty_data:
  "fetch_bulk_indicators (\<lambda>k. Response 200 (Some (PDict [(''data'', PList [])]))) = []"
  by (simp add: fetch_bulk_indicators_def post_empty_data parse_response_def dict_getitem_def)

text \<open>
  Claim C1 says that \<^verbatim>\<open>fetch_asset_indicators\<close> fails with a hard error exactly when
  every indicator of both horizons comes back empty. The code raises that error inside a
  \<^verbatim>\<open>try\<close> block whose \<^verbatim>\<open>except Exception: pass\<close> catches it. When both bulk
  requests for BTC are answered with \<^verbatim>\<open>{"data": []}\<close>, the emptiness check does
  raise \<^verbatim>\<open>RuntimeError\<close>, and the call nevertheless returns the two empty bundles.
  No input makes the call raise.
\<close>

theorem no_usable_data_is_swallowed:
  "check_usable ''BTC''
     (PDict [(''ema20'', PList []), (''macd'', PList []), (''rsi7'', PList []),
             (''rsi14'', PList [])])
     (PDict [(''ema20'', PNone), (''ema50'', PNone), (''atr3'', PNone), (''atr14'', PNone),
             (''macd'', PList []), (''rsi14'', PList [])])
     = Inl (RuntimeError ''TAAPI returned no usable indicators for BTC'')
   \<and> fst (fetch_asset_indicators
            \<lparr>at_get_5m = 0, at_get_4h = 0, at_set_5m = 40, at_set_4h = 40\<rparr>
            (\<lambda>k. Response 200 (Some (PDict [(''data'', PList [])])))
            (\<lambda>k. Response 200 (Some (PDict [(''data'', PList [])])))
            ''BTC''
            \<lparr>enable_cache = True, client_cache = Some (TAAPICache_init 60)\<rparr>)
     = Inr (PDict
         [(''5m'', PDict [(''ema20'', PList []), (''macd'', PList []), (''rsi7'', PList []),
                          (''rsi14'', PList [])]),
          (''4h'', PDict [(''ema20'', PNone), (''ema50'', PNone), (''atr3'', PNone),
                          (''atr14'', PNone), (''macd'', PList []), (''rsi14'', PList [])])])
   \<and> (\<forall>clk net_5m net_4h asset self.
        \<exists>v. fst (fetch_asset_indicators clk net_5m net_4h asset self) = Inr v)"
proof (intro conjI allI)
  show "check_usable ''BTC''
     (PDict [(''ema20'', PList []), (''macd'', PList []), (''rsi7'', PList []),
             (''rsi14'', PList [])])
     (PDict [(''ema20'', PNone), (''ema50'', PNone), (''atr3'', PNone), (''atr14'', PNone),
             (''macd'', PList []), (''rsi14'', PList [])])
     = Inl (RuntimeError ''TAAPI returned no usable indicators for BTC'')"
    by (simp add: check_usable_def all_empty_def and_then_def)
next
  show "fst (fetch_asset_indicators
            \<lparr>at_get_5m = 0, at_get_4h = 0, at_set_5m = 40, at_set_4h = 40\<rparr>
            (\<lambda>k. Response 200 (Some (PDict [(''data'', PList [])])))
            (\<lambda>k. Response 200 (Some (PDict [(''data'', PList [])])))
            ''BTC''
            \<lparr>enable_cache = True, client_cache = Some (TAAPICache_init 60)\<rparr>)
     = Inr (PDict
         [(''5m'', PDict [(''ema20'', PList []), (''macd'', PList []), (''rsi7'', PList []),
                          (''rsi14'', PList [])]),
          (''4h'', PDict [(''ema20'', PNone), (''ema50'', PNone), (''atr3'', PNone),
                          (''atr14'', PNone), (''macd'', PList []), (''rsi14'', PList [])])])"
    by (simp add: fetch_asset_indicators_def probe_cache_def TAAPICache_get_def
          TAAPICache_init_def bulk_empty_data bundle_5m_def bundle_4h_def and_then_def
          extract_series_def extract_value_def results_get_def Let_def)
next
  fix clk net_5m net_4h asset self
  show "\<exists>v. fst (fetch_asset_indicators clk net_5m net_4h asset self) = Inr v"
    by (rule fetch_never_raises)
qed

section \<open>Properties of the symbol mapping\<close>

lemma str_contains_sublist: "str_contains sub s = sublist sub s"
  by (induction s) (simp_all add: sublist_Cons_right)

lemma str_contains_char: "str_contains [c] s = (c \<in> set s)"
  by (induction s) auto

lemma split_first_append:
  "sep \<notin> set s \<Longrightarrow> split_first sep (s @ sep # rest) = s"
  by (simp add: split_first_def takeWhile_append)

lemma str_replace_Nil: "old \<noteq> [] \<Longrightarrow> str_replace old new [] = []"
  by (simp add: str_replace.simps)

lemma str_replace_match:
  "old \<noteq> [] \<Longrightarrow> str_replace old new (old @ rest) = new @ str_replace old new rest"
  by (subst str_replace.simps) simp

lemma str_replace_skip:
  "old \<noteq> [] \<Longrightarrow> \<not> prefix old (c # cs) \<Longrightarrow>
   str_replace old new (c # cs) = c # str_replace old new cs"
  by (subst str_replace.simps) simp

text \<open>A pattern without a proper border (a non-empty proper prefix that is also a
  suffix) that does not occur in \<open>s\<close> occurs in \<open>s @ pat\<close> at the end only.\<close>

lemma str_replace_suffix:
  assumes ne: "pat \<noteq> []"
    and border: "\<And>us. prefix us pat \<Longrightarrow> suffix us pat \<Longrightarrow> us = [] \<or> us = pat"
  shows "\<not> sublist pat s \<Longrightarrow> str_replace pat [] (s @ pat) = s"
proof (induction s)
  case Nil
  show ?case
    using str_replace_match [OF ne, of "[]" "[]"] by (simp add: str_replace_Nil [OF ne])
next
  case (Cons c cs)
  from Cons.prems have np: "\<not> prefix pat (c # cs)" and ns: "\<not> sublist pat cs"
    by (auto simp: sublist_Cons_right)
  have "\<not> prefix pat ((c # cs) @ pat)"
  proof
    assume "prefix pat ((c # cs) @ pat)"
    then obtain zs where "(c # cs) @ pat = pat @ zs"
      by (auto simp: prefix_def)
    then obtain us where
      "(c # cs = pat @ us \<and> us @ pat = zs) \<or> ((c # cs) @ us = pat \<and> pat = us @ zs)"
      using append_eq_append_conv2 [of "c # cs" pat pat zs] by blast
    then show False
    proof
      assume "c # cs = pat @ us \<and> us @ pat = zs"
      then have "prefix pat (c # cs)" by (simp add: prefix_def)
      with np show False by simp
    next
      assume h: "(c # cs) @ us = pat \<and> pat = us @ zs"
      then have "pat = (c # cs) @ us" and "pat = us @ zs"
        by simp_all
      then have "prefix us pat" and "suffix us pat"
        unfolding suffix_def prefix_def by blast+
      then have "us = [] \<or> us = pat" by (rule border)
      then show False
      proof
        assume "us = []"
        with h have "c # cs = pat" by simp
        with np show False by simp
      next
        assume "us = pat"
        with h show False by simp
      qed
    qed
  qed
  then have "str_replace pat [] ((c # cs) @ pat) = c # str_replace pat [] (cs @ pat)"
    using str_replace_skip [OF ne, of c "cs @ pat" "[]"] by simp
  with Cons.IH [OF ns] show ?case by simp
qed

lemma swap_borders:
  "\<forall>us \<in> set (prefixes ''-USDT-SWAP'').
     us \<in> set (suffixes ''-USDT-SWAP'') \<longrightarrow> us = [] \<or> us = ''-USDT-SWAP''"
  by code_simp

lemma swap_suffix_border:
  "prefix us ''-USDT-SWAP'' \<Longrightarrow> suffix us ''-USDT-SWAP'' \<Longrightarrow>
   us = [] \<or> us = ''-USDT-SWAP''"
  using swap_borders by (simp only: in_set_prefixes in_set_suffixes)

lemma swap_in_inst_suffix: "sublist ''-SWAP'' ''-USDT-SWAP''"
proof -
  have "''-USDT-SWAP'' = ''-USDT'' @ ''-SWAP'' @ []" by simp
  then show ?thesis unfolding sublist_def by blast
qed

text \<open>
  Claim C9. For every coin ticker \<open>c\<close>, a bare asset name that contains neither
  \<^verbatim>\<open>/\<close> nor \<^verbatim>\<open>-SWAP\<close> (names with these are taken by the code for symbols
  that are already converted and are passed through), the instrument id is
  \<^verbatim>\<open>{c}-USDT-SWAP\<close> and converting it back yields \<open>c\<close>; the unified pair symbol is
  \<^verbatim>\<open>{c}/USDT:USDT\<close> and converting it back yields \<open>c\<close>. The three conversions are
  functions of the string alone.
\<close>

theorem symbol_round_trip:
  assumes "\<not> str_contains ''/'' c" and "\<not> str_contains ''-SWAP'' c"
  shows "get_inst_id c = c @ ''-USDT-SWAP''
       \<and> get_asset_from_symbol (get_inst_id c) = c
       \<and> get_symbol c = c @ ''/USDT:USDT''
       \<and> get_asset_from_symbol (get_symbol c) = c"
proof -
  from assms(1) have slash: "CHR ''/'' \<notin> set c"
    by (simp add: str_contains_char)
  have no_inst: "\<not> sublist ''-USDT-SWAP'' c"
  proof
    assume "sublist ''-USDT-SWAP'' c"
    with swap_in_inst_suffix have "sublist ''-SWAP'' c"
      by (rule sublist_order.order.trans)
    with assms(2) show False by (simp add: str_contains_sublist)
  qed
  have inst: "get_inst_id c = c @ ''-USDT-SWAP''"
    using assms(2) by (simp add: get_inst_id_def)
  have sym: "get_symbol c = c @ ''/USDT:USDT''"
    using assms(1) by (simp add: get_symbol_def)
  have "\<not> str_contains ''/'' (c @ ''-USDT-SWAP'')"
    using slash by (simp add: str_contains_char)
  moreover have "str_contains ''-USDT-SWAP'' (c @ ''-USDT-SWAP'')"
    by (simp add: str_contains_sublist)
  moreover have "str_replace ''-USDT-SWAP'' [] (c @ ''-USDT-SWAP'') = c"
    by (rule str_replace_suffix [OF _ swap_suffix_border no_inst]) simp_all
  ultimately have back_inst: "get_asset_from_symbol (c @ ''-USDT-SWAP'') = c"
    by (simp add: get_asset_from_symbol_def)
  have "str_contains ''/'' (c @ ''/USDT:USDT'')"
    by (simp add: str_contains_char)
  moreover have "split_first CHR ''/'' (c @ ''/USDT:USDT'') = c"
    using split_first_append [OF slash, of "''USDT:USDT''"] by simp
  ultimately have back_sym: "get_asset_from_symbol (c @ ''/USDT:USDT'') = c"
    by (simp add: get_asset_from_symbol_def)
  from inst sym back_inst back_sym show ?thesis by simp
qed

theorem symbol_round_trip_witness:
  "\<not> str_contains ''/'' ''BTC'' \<and> \<not> str_contains ''-SWAP'' ''BTC''
   \<and> get_inst_id ''BTC'' = ''BTC-USDT-SWAP''
   \<and> get_asset_from_symbol ''BTC-USDT-SWAP'' = ''BTC''
   \<and> get_symbol ''BTC'' = ''BTC/USDT:USDT''
   \<and> get_asset_from_symbol ''BTC/USDT:USDT'' = ''BTC''"
proof -
  have h1: "\<not> str_contains ''/'' ''BTC''" by simp
  have h2: "\<not> str_contains ''-SWAP'' ''BTC''" by simp
  from symbol_round_trip [OF h1 h2] h1 h2 show ?thesis
    by (simp add: get_inst_id_def get_symbol_def)
qed

section \<open>Properties of the exchange translator\<close>

lemma ensure_position_mode_known:
  "position_mode s \<noteq> None \<Longrightarrow> ensure_position_mode ex s = s"
  by (simp add: ensure_position_mode_def)

lemma detect_position_mode_range:
  "detect_position_mode a = Inr m \<Longrightarrow> m = ''net_mode'' \<or> m = ''long_short_mode''"
  by (auto simp: detect_position_mode_def and_then_def Let_def split: sum.splits if_splits pyval.splits)

lemma ensure_position_mode_first:
  "position_mode s = None \<Longrightarrow>
   position_mode (ensure_position_mode ex s) \<in> {Some ''net_mode'', Some ''long_short_mode''}
   \<and> sent (ensure_position_mode ex s) = sent s @ [GetAccountConfig]
   \<and> markets_loaded (ensure_position_mode ex s) = markets_loaded s"
  by (auto simp: ensure_position_mode_def Let_def split: sum.splits
           dest: detect_position_mode_range)

lemma ensure_position_mode_fold:
  "position_mode s \<noteq> None \<Longrightarrow> fold ensure_position_mode exs s = s"
  by (induction exs) (simp_all add: ensure_position_mode_known)

lemma detect_recognised:
  "map_of kvs ''data'' = Some (PList (PDict d # rest)) \<Longrightarrow>
   map_of d ''posMode'' = Some (PStr m) \<Longrightarrow>
   detect_position_mode (Inr (PDict kvs))
     = Inr (if m = ''long_short_mode'' then ''long_short_mode'' else ''net_mode'')"
  by (simp add: detect_position_mode_def and_then_def Let_def)


lemma ensure_markets_ok:
  "markets_loaded s \<or> load_markets ex = None \<Longrightarrow>
   fst (ensure_markets ex s) = Inr ()
   \<and> markets_loaded (snd (ensure_markets ex s))
   \<and> position_mode (snd (ensure_markets ex s)) = position_mode s
   \<and> sent (snd (ensure_markets ex s))
       = sent s @ (if markets_loaded s then [] else [LoadMarkets])"
  by (auto simp: ensure_markets_def)

lemma ensure_position_mode_sent:
  "sent (ensure_position_mode ex s)
     = sent s @ (if position_mode s = None then [GetAccountConfig] else [])
   \<and> markets_loaded (ensure_position_mode ex s) = markets_loaded s
   \<and> position_mode (ensure_position_mode ex s) \<noteq> None
   \<and> (position_mode s \<noteq> None \<longrightarrow> position_mode (ensure_position_mode ex s) = position_mode s)"
  by (auto simp: ensure_position_mode_def Let_def split: sum.splits)

lemma get_contract_value_loaded:
  "markets_loaded s \<Longrightarrow> get_contract_value ex symbol s = (Inr (contract_value ex symbol), s)"
  by (simp add: get_contract_value_def ensure_markets_def)

text \<open>The session after the two \<open>ensure\<close> steps that open every placement.\<close>

lemma warm_session:
  assumes "markets_loaded s \<or> load_markets ex = None"
  shows "ensure_markets ex s = (Inr (), snd (ensure_markets ex s))"
    and "markets_loaded (ensure_position_mode ex (snd (ensure_markets ex s)))"
    and "sent (ensure_position_mode ex (snd (ensure_markets ex s)))
          = sent s @ (if markets_loaded s then [] else [LoadMarkets])
                   @ (if position_mode s = None then [GetAccountConfig] else [])"
    and "position_mode (ensure_position_mode ex (snd (ensure_markets ex s))) \<noteq> None"
    and "position_mode s \<noteq> None \<Longrightarrow>
         position_mode (ensure_position_mode ex (snd (ensure_markets ex s))) = position_mode s"
  using ensure_markets_ok [OF assms]
        ensure_position_mode_sent [of ex "snd (ensure_markets ex s)"]
  by (auto simp: prod_eq_iff)

lemma place_market_order_warm:
  assumes "markets_loaded s \<or> load_markets ex = None"
  shows "place_market_order ex asset side amount s =
     (let s2 = ensure_position_mode ex (snd (ensure_markets ex s));
          symbol = get_symbol asset;
          ct_val = contract_value ex symbol;
          sz_contracts = (if ct_val > 0 then py_int (amount / ct_val) else 1);
          params = [(''tdMode'', Str ''cross'')]
                   @ (if position_mode s2 = Some ''long_short_mode''
                      then [(''posSide'', Str (if side = ''buy'' then ''long'' else ''short''))]
                      else [])
      in if sz_contracts = 0
         then (Inr (PDict [(''code'', PStr ''error''), (''msg'', PStr ''Amount too small'')]), s2)
         else (create_order ex symbol ''market'' side sz_contracts params,
               s2\<lparr>sent := sent s2 @ [CreateOrder symbol ''market'' side sz_contracts params]\<rparr>))"
  unfolding place_market_order_def
  by (subst warm_session(1) [OF assms])
     (simp add: Let_def get_contract_value_loaded [OF warm_session(2) [OF assms]])

lemma place_take_profit_warm:
  assumes "markets_loaded s \<or> load_markets ex = None"
  shows "place_take_profit ex asset is_buy amount tp_price s =
     (let s2 = ensure_position_mode ex (snd (ensure_markets ex s));
          ct_val = contract_value ex (get_symbol asset);
          params =
            [(''instId'', Str (get_inst_id asset)),
             (''tdMode'', Str ''cross''),
             (''side'', Str (if is_buy then ''sell'' else ''buy'')),
             (''ordType'', Str ''conditional''),
             (''sz'', Str (if ct_val > 0 then str_int (py_int (amount / ct_val)) else ''1'')),
             (''tpTriggerPx'', FloatStr tp_price),
             (''tpOrdPx'', Str ''-1'')]
            @ (if position_mode s2 = Some ''long_short_mode''
               then [(''posSide'', Str (if is_buy then ''long'' else ''short''))]
               else [])
      in (private_post_trade_order_algo ex params,
          s2\<lparr>sent := sent s2 @ [PostTradeOrderAlgo params]\<rparr>))"
  unfolding place_take_profit_def
  by (subst warm_session(1) [OF assms])
     (simp add: Let_def get_contract_value_loaded [OF warm_session(2) [OF assms]])

lemma place_stop_loss_warm:
  assumes "markets_loaded s \<or> load_markets ex = None"
  shows "place_stop_loss ex asset is_buy amount sl_price s =
     (let s2 = ensure_position_mode ex (snd (ensure_markets ex s));
          ct_val = contract_value ex (get_symbol asset);
          params =
            [(''instId'', Str (get_inst_id asset)),
             (''tdMode'', Str ''cross''),
             (''side'', Str (if is_buy then ''sell'' else ''buy'')),
             (''ordType'', Str ''conditional''),
             (''sz'', Str (if ct_val > 0 then str_int (py_int (amount / ct_val)) else ''1'')),
             (''slTriggerPx'', FloatStr sl_price),
             (''slOrdPx'', Str ''-1'')]
            @ (if position_mode s2 = Some ''long_short_mode''
               then [(''posSide'', Str (if is_buy then ''long'' else ''short''))]
               else [])
      in (private_post_trade_order_algo ex params,
          s2\<lparr>sent := sent s2 @ [PostTradeOrderAlgo params]\<rparr>))"
  unfolding place_stop_loss_def
  by (subst warm_session(1) [OF assms])
     (simp add: Let_def get_contract_value_loaded [OF warm_session(2) [OF assms]])

text \<open>
  Claim C3. Let the markets be loaded or loadable. A take-profit placement and a stop-loss
  placement each send one conditional algo order whose side is \<^verbatim>\<open>sell\<close> when the
  position was long and \<^verbatim>\<open>buy\<close> when it was not, whose trigger price is the one
  given and whose order price is \<^verbatim>\<open>-1\<close>, market on trigger. When the session is in
  long/short mode the order carries \<^verbatim>\<open>posSide\<close>, \<^verbatim>\<open>long\<close> for a long position
  and \<^verbatim>\<open>short\<close> otherwise, the direction of the position and not the closing side;
  in net mode it carries no \<^verbatim>\<open>posSide\<close>.
\<close>

theorem protective_order_sides:
  assumes "markets_loaded s \<or> load_markets ex = None"
  shows
    "(\<exists>params.
        fst (place_take_profit ex asset is_buy amount px s)
          = private_post_trade_order_algo ex params
        \<and> sent (snd (place_take_profit ex asset is_buy amount px s))
          = sent s @ (if markets_loaded s then [] else [LoadMarkets])
                   @ (if position_mode s = None then [GetAccountConfig] else [])
                   @ [PostTradeOrderAlgo params]
        \<and> map_of params ''ordType'' = Some (Str ''conditional'')
        \<and> map_of params ''side'' = Some (Str (if is_buy then ''sell'' else ''buy''))
        \<and> map_of params ''tpTriggerPx'' = Some (FloatStr px)
        \<and> map_of params ''tpOrdPx'' = Some (Str ''-1'')
        \<and> map_of params ''posSide''
          = (if position_mode (snd (place_take_profit ex asset is_buy amount px s))
                = Some ''long_short_mode''
             then Some (Str (if is_buy then ''long'' else ''short'')) else None))
     \<and> (\<exists>params.
        fst (place_stop_loss ex asset is_buy amount px s)
          = private_post_trade_order_algo ex params
        \<and> sent (snd (place_stop_loss ex asset is_buy amount px s))
          = sent s @ (if markets_loaded s then [] else [LoadMarkets])
                   @ (if position_mode s = None then [GetAccountConfig] else [])
                   @ [PostTradeOrderAlgo params]
        \<and> map_of params ''ordType'' = Some (Str ''conditional'')
        \<and> map_of params ''side'' = Some (Str (if is_buy then ''sell'' else ''buy''))
        \<and> map_of params ''slTriggerPx'' = Some (FloatStr px)
        \<and> map_of params ''slOrdPx'' = Some (Str ''-1'')
        \<and> map_of params ''posSide''
          = (if position_mode (snd (place_stop_loss ex asset is_buy amount px s))
                = Some ''long_short_mode''
             then Some (Str (if is_buy then ''long'' else ''short'')) else None))"
proof -
  note w = warm_session [OF assms]
  show ?thesis
    using w(3)
    by (simp add: place_take_profit_warm [OF assms] place_stop_loss_warm [OF assms] Let_def)
qed


theorem protective_order_sides_witness:
  "(markets_loaded OKXAPI_init \<or> load_markets \<lparr>load_markets = None,
             private_get_account_config =
               Inr (PDict [(''data'', PList [PDict [(''posMode'', PStr ''long_short_mode'')]])]),
             market = (\<lambda>sym. Inr (Number (1 / 100))),
             create_order = (\<lambda>sym ty sd n ps. Inl ExchangeError),
             private_post_trade_order_algo = (\<lambda>ps. Inr (PDict [(''code'', PStr ''0'')]))\<rparr> = None)
   \<and> position_mode (snd (place_take_profit \<lparr>load_markets = None,
             private_get_account_config =
               Inr (PDict [(''data'', PList [PDict [(''posMode'', PStr ''long_short_mode'')]])]),
             market = (\<lambda>sym. Inr (Number (1 / 100))),
             create_order = (\<lambda>sym ty sd n ps. Inl ExchangeError),
             private_post_trade_order_algo = (\<lambda>ps. Inr (PDict [(''code'', PStr ''0'')]))\<rparr> ''BTC'' True (1 / 10) 70000 OKXAPI_init))
       = Some ''long_short_mode''
   \<and> (\<exists>params.
        sent (snd (place_take_profit \<lparr>load_markets = None,
             private_get_account_config =
               Inr (PDict [(''data'', PList [PDict [(''posMode'', PStr ''long_short_mode'')]])]),
             market = (\<lambda>sym. Inr (Number (1 / 100))),
             create_order = (\<lambda>sym ty sd n ps. Inl ExchangeError),
             private_post_trade_order_algo = (\<lambda>ps. Inr (PDict [(''code'', PStr ''0'')]))\<rparr> ''BTC'' True (1 / 10) 70000 OKXAPI_init))
          = [LoadMarkets, GetAccountConfig, PostTradeOrderAlgo params]
        \<and> map_of params ''side'' = Some (Str ''sell'')
        \<and> map_of params ''tpOrdPx'' = Some (Str ''-1'')
        \<and> map_of params ''posSide'' = Some (Str ''long''))
   \<and> position_mode (snd (place_stop_loss \<lparr>load_markets = None,
             private_get_account_config =
               Inr (PDict [(''data'', PList [PDict [(''posMode'', PStr ''long_short_mode'')]])]),
             market = (\<lambda>sym. Inr (Number (1 / 100))),
             create_order = (\<lambda>sym ty sd n ps. Inl ExchangeError),
             private_post_trade_order_algo = (\<lambda>ps. Inr (PDict [(''code'', PStr ''0'')]))\<rparr> ''BTC'' False (1 / 10) 70000 OKXAPI_init))
       = Some ''long_short_mode''
   \<and> (\<exists>params.
        sent (snd (place_stop_loss \<lparr>load_markets = None,
             private_get_account_config =
               Inr (PDict [(''data'', PList [PDict [(''posMode'', PStr ''long_short_mode'')]])]),
             market = (\<lambda>sym. Inr (Number (1 / 100))),
             create_order = (\<lambda>sym ty sd n ps. Inl ExchangeError),
             private_post_trade_order_algo = (\<lambda>ps. Inr (PDict [(''code'', PStr ''0'')]))\<rparr> ''BTC'' False (1 / 10) 70000 OKXAPI_init))
          = [LoadMarkets, GetAccountConfig, PostTradeOrderAlgo params]
        \<and> map_of params ''side'' = Some (Str ''buy'')
        \<and> map_of params ''slOrdPx'' = Some (Str ''-1'')
        \<and> map_of params ''posSide'' = Some (Str ''short''))"
proof -
  let ?ex = "\<lparr>load_markets = None,
             private_get_account_config =
               Inr (PDict [(''data'', PList [PDict [(''posMode'', PStr ''long_short_mode'')]])]),
             market = (\<lambda>sym. Inr (Number (1 / 100))),
             create_order = (\<lambda>sym ty sd n ps. Inl ExchangeError),
             private_post_trade_order_algo = (\<lambda>ps. Inr (PDict [(''code'', PStr ''0'')]))\<rparr>"
  have h: "markets_loaded OKXAPI_init \<or> load_markets ?ex = None" by simp
  have i: "markets_loaded OKXAPI_init = False" "position_mode OKXAPI_init = None"
    "sent OKXAPI_init = []"
    by (simp_all add: OKXAPI_init_def)
  have m: "detect_position_mode (private_get_account_config ?ex) = Inr ''long_short_mode''"
    by (simp add: detect_position_mode_def and_then_def Let_def)
  have tp: "position_mode (snd (place_take_profit ?ex ''BTC'' True (1 / 10) 70000 OKXAPI_init))
       = Some ''long_short_mode''"
    using m by (simp add: place_take_profit_warm [OF h] Let_def ensure_markets_def
          ensure_position_mode_def i)
  have sl: "position_mode (snd (place_stop_loss ?ex ''BTC'' False (1 / 10) 70000 OKXAPI_init))
       = Some ''long_short_mode''"
    using m by (simp add: place_stop_loss_warm [OF h] Let_def ensure_markets_def
          ensure_position_mode_def i)
  from protective_order_sides [OF h, of "''BTC''" True "1 / 10" 70000]
  obtain p where
    "sent (snd (place_take_profit ?ex ''BTC'' True (1 / 10) 70000 OKXAPI_init))
       = [LoadMarkets, GetAccountConfig, PostTradeOrderAlgo p]
     \<and> map_of p ''side'' = Some (Str ''sell'')
     \<and> map_of p ''tpOrdPx'' = Some (Str ''-1'')
     \<and> map_of p ''posSide'' = Some (Str ''long'')"
    unfolding tp by (auto simp: i)
  moreover
  from protective_order_sides [OF h, of "''BTC''" False "1 / 10" 70000]
  obtain q where
    "sent (snd (place_stop_loss ?ex ''BTC'' False (1 / 10) 70000 OKXAPI_init))
       = [LoadMarkets, GetAccountConfig, PostTradeOrderAlgo q]
     \<and> map_of q ''side'' = Some (Str ''buy'')
     \<and> map_of q ''slOrdPx'' = Some (Str ''-1'')
     \<and> map_of q ''posSide'' = Some (Str ''short'')"
    unfolding sl by (auto simp: i)
  ultimately show ?thesis
    using h tp sl by blast
qed

lemma str_int_0: "str_int 0 = ''0''"
  by code_simp

lemma py_int_small: "0 < x \<Longrightarrow> x < c \<Longrightarrow> py_int (x / c) = 0"
proof -
  assume "0 < x" and "x < c"
  then have "0 \<le> x / c" and "x / c < 1" by simp_all
  then show ?thesis by (simp add: py_int_def floor_eq_iff)
qed

text \<open>
  Claim C10. Take-profit and stop-loss placement have no minimum-size check. Let the
  markets be loaded or loadable. For a coin amount with \<open>0 < amount < contractValue\<close> the
  conditional algo order is sent with size \<^verbatim>\<open>"0"\<close> and its answer is the result,
  where a market order of the same amount returns the amount-too-small error and sends no
  order. When the contract value looked up is not positive, the size sent is
  \<^verbatim>\<open>"1"\<close>.
\<close>

theorem protective_order_no_min_size:
  assumes "markets_loaded s \<or> load_markets ex = None"
  shows
    "(0 < amount \<and> amount < contract_value ex (get_symbol asset) \<longrightarrow>
        (\<exists>params.
           fst (place_take_profit ex asset is_buy amount px s)
             = private_post_trade_order_algo ex params
           \<and> sent (snd (place_take_profit ex asset is_buy amount px s))
             = sent s @ (if markets_loaded s then [] else [LoadMarkets])
                      @ (if position_mode s = None then [GetAccountConfig] else [])
                      @ [PostTradeOrderAlgo params]
           \<and> map_of params ''sz'' = Some (Str ''0''))
        \<and> (\<exists>params.
           fst (place_stop_loss ex asset is_buy amount px s)
             = private_post_trade_order_algo ex params
           \<and> sent (snd (place_stop_loss ex asset is_buy amount px s))
             = sent s @ (if markets_loaded s then [] else [LoadMarkets])
                      @ (if position_mode s = None then [GetAccountConfig] else [])
                      @ [PostTradeOrderAlgo params]
           \<and> map_of params ''sz'' = Some (Str ''0''))
        \<and> fst (place_market_order ex asset side amount s)
             = Inr (PDict [(''code'', PStr ''error''), (''msg'', PStr ''Amount too small'')])
        \<and> sent (snd (place_market_order ex asset side amount s))
             = sent s @ (if markets_loaded s then [] else [LoadMarkets])
                      @ (if position_mode s = None then [GetAccountConfig] else []))
     \<and> (contract_value ex (get_symbol asset) \<le> 0 \<longrightarrow>
        (\<exists>params.
           fst (place_take_profit ex asset is_buy amount px s)
             = private_post_trade_order_algo ex params
           \<and> sent (snd (place_take_profit ex asset is_buy amount px s))
             = sent s @ (if markets_loaded s then [] else [LoadMarkets])
                      @ (if position_mode s = None then [GetAccountConfig] else [])
                      @ [PostTradeOrderAlgo params]
           \<and> map_of params ''sz'' = Some (Str ''1''))
        \<and> (\<exists>params.
           fst (place_stop_loss ex asset is_buy amount px s)
             = private_post_trade_order_algo ex params
           \<and> sent (snd (place_stop_loss ex asset is_buy amount px s))
             = sent s @ (if markets_loaded s then [] else [LoadMarkets])
                      @ (if position_mode s = None then [GetAccountConfig] else [])
                      @ [PostTradeOrderAlgo params]
           \<and> map_of params ''sz'' = Some (Str ''1'')))"
proof (intro conjI impI)
  note w = warm_session [OF assms]
  assume small: "0 < amount \<and> amount < contract_value ex (get_symbol asset)"
  then have z: "py_int (amount / contract_value ex (get_symbol asset)) = 0"
    by (simp add: py_int_small)
  from small have pos: "0 < contract_value ex (get_symbol asset)" by simp
  show "\<exists>params.
           fst (place_take_profit ex asset is_buy amount px s)
             = private_post_trade_order_algo ex params
           \<and> sent (snd (place_take_profit ex asset is_buy amount px s))
             = sent s @ (if markets_loaded s then [] else [LoadMarkets])
                      @ (if position_mode s = None then [GetAccountConfig] else [])
                      @ [PostTradeOrderAlgo params]
           \<and> map_of params ''sz'' = Some (Str ''0'')"
    using w(3) pos z by (simp add: place_take_profit_warm [OF assms] Let_def str_int_0)
  show "\<exists>params.
           fst (place_stop_loss ex asset is_buy amount px s)
             = private_post_trade_order_algo ex params
           \<and> sent (snd (place_stop_loss ex asset is_buy amount px s))
             = sent s @ (if markets_loaded s then [] else [LoadMarkets])
                      @ (if position_mode s = None then [GetAccountConfig] else [])
                      @ [PostTradeOrderAlgo params]
           \<and> map_of params ''sz'' = Some (Str ''0'')"
    using w(3) pos z by (simp add: place_stop_loss_warm [OF assms] Let_def str_int_0)
  show "fst (place_market_order ex asset side amount s)
             = Inr (PDict [(''code'', PStr ''error''), (''msg'', PStr ''Amount too small'')])"
    using pos z by (simp add: place_market_order_warm [OF assms] Let_def)
  show "sent (snd (place_market_order ex asset side amount s))
             = sent s @ (if markets_loaded s then [] else [LoadMarkets])
                      @ (if position_mode s = None then [GetAccountConfig] else [])"
    using w(3) pos z by (simp add: place_market_order_warm [OF assms] Let_def)
next
  note w = warm_session [OF assms]
  assume np: "contract_value ex (get_symbol asset) \<le> 0"
  show "\<exists>params.
           fst (place_take_profit ex asset is_buy amount px s)
             = private_post_trade_order_algo ex params
           \<and> sent (snd (place_take_profit ex asset is_buy amount px s))
             = sent s @ (if markets_loaded s then [] else [LoadMarkets])
                      @ (if position_mode s = None then [GetAccountConfig] else [])
                      @ [PostTradeOrderAlgo params]
           \<and> map_of params ''sz'' = Some (Str ''1'')"
    using w(3) np by (simp add: place_take_profit_warm [OF assms] Let_def not_less [symmetric])
  show "\<exists>params.
           fst (place_stop_loss ex asset is_buy amount px s)
             = private_post_trade_order_algo ex params
           \<and> sent (snd (place_stop_loss ex asset is_buy amount px s))
             = sent s @ (if markets_loaded s then [] else [LoadMarkets])
                      @ (if position_mode s = None then [GetAccountConfig] else [])
                      @ [PostTradeOrderAlgo params]
           \<and> map_of params ''sz'' = Some (Str ''1'')"
    using w(3) np by (simp add: place_stop_loss_warm [OF assms] Let_def not_less [symmetric])
qed


theorem protective_order_no_min_size_witness:
  "(markets_loaded \<lparr>markets_loaded = True, position_mode = Some ''net_mode'', sent = []\<rparr> \<or> load_markets \<lparr>load_markets = Some ExchangeError, private_get_account_config = Inl ExchangeError,
       market = (\<lambda>sym. Inr (Number 1)),
       create_order = (\<lambda>sym ty sd n ps. Inl ExchangeError),
       private_post_trade_order_algo = (\<lambda>ps. Inr (PDict [(''code'', PStr ''0'')]))\<rparr> = None)
   \<and> (0::rat) < 1 / 1000 \<and> 1 / 1000 < contract_value \<lparr>load_markets = Some ExchangeError, private_get_account_config = Inl ExchangeError,
       market = (\<lambda>sym. Inr (Number 1)),
       create_order = (\<lambda>sym ty sd n ps. Inl ExchangeError),
       private_post_trade_order_algo = (\<lambda>ps. Inr (PDict [(''code'', PStr ''0'')]))\<rparr> (get_symbol ''BTC'')
   \<and> (\<exists>params.
        fst (place_take_profit \<lparr>load_markets = Some ExchangeError, private_get_account_config = Inl ExchangeError,
       market = (\<lambda>sym. Inr (Number 1)),
       create_order = (\<lambda>sym ty sd n ps. Inl ExchangeError),
       private_post_trade_order_algo = (\<lambda>ps. Inr (PDict [(''code'', PStr ''0'')]))\<rparr> ''BTC'' True (1 / 1000) 70000 \<lparr>markets_loaded = True, position_mode = Some ''net_mode'', sent = []\<rparr>)
          = Inr (PDict [(''code'', PStr ''0'')])
        \<and> sent (snd (place_take_profit \<lparr>load_markets = Some ExchangeError, private_get_account_config = Inl ExchangeError,
       market = (\<lambda>sym. Inr (Number 1)),
       create_order = (\<lambda>sym ty sd n ps. Inl ExchangeError),
       private_post_trade_order_algo = (\<lambda>ps. Inr (PDict [(''code'', PStr ''0'')]))\<rparr> ''BTC'' True (1 / 1000) 70000 \<lparr>markets_loaded = True, position_mode = Some ''net_mode'', sent = []\<rparr>))
          = [PostTradeOrderAlgo params]
        \<and> map_of params ''sz'' = Some (Str ''0''))
   \<and> fst (place_market_order \<lparr>load_markets = Some ExchangeError, private_get_account_config = Inl ExchangeError,
       market = (\<lambda>sym. Inr (Number 1)),
       create_order = (\<lambda>sym ty sd n ps. Inl ExchangeError),
       private_post_trade_order_algo = (\<lambda>ps. Inr (PDict [(''code'', PStr ''0'')]))\<rparr> ''BTC'' ''sell'' (1 / 1000) \<lparr>markets_loaded = True, position_mode = Some ''net_mode'', sent = []\<rparr>)
       = Inr (PDict [(''code'', PStr ''error''), (''msg'', PStr ''Amount too small'')])
   \<and> sent (snd (place_market_order \<lparr>load_markets = Some ExchangeError, private_get_account_config = Inl ExchangeError,
       market = (\<lambda>sym. Inr (Number 1)),
       create_order = (\<lambda>sym ty sd n ps. Inl ExchangeError),
       private_post_trade_order_algo = (\<lambda>ps. Inr (PDict [(''code'', PStr ''0'')]))\<rparr> ''BTC'' ''sell'' (1 / 1000) \<lparr>markets_loaded = True, position_mode = Some ''net_mode'', sent = []\<rparr>)) = []
   \<and> contract_value \<lparr>load_markets = Some ExchangeError, private_get_account_config = Inl ExchangeError,
       market = (\<lambda>sym. Inr (Number 0)),
       create_order = (\<lambda>sym ty sd n ps. Inl ExchangeError),
       private_post_trade_order_algo = (\<lambda>ps. Inr (PDict [(''code'', PStr ''0'')]))\<rparr> (get_symbol ''BTC'') \<le> 0
   \<and> (\<exists>params.
        sent (snd (place_stop_loss \<lparr>load_markets = Some ExchangeError, private_get_account_config = Inl ExchangeError,
       market = (\<lambda>sym. Inr (Number 0)),
       create_order = (\<lambda>sym ty sd n ps. Inl ExchangeError),
       private_post_trade_order_algo = (\<lambda>ps. Inr (PDict [(''code'', PStr ''0'')]))\<rparr> ''BTC'' True (1 / 1000) 70000 \<lparr>markets_loaded = True, position_mode = Some ''net_mode'', sent = []\<rparr>))
          = [PostTradeOrderAlgo params]
        \<and> map_of params ''sz'' = Some (Str ''1''))"
proof -
  let ?warm = "\<lparr>markets_loaded = True, position_mode = Some ''net_mode'', sent = []\<rparr>"
  let ?ex1 = "\<lparr>load_markets = Some ExchangeError, private_get_account_config = Inl ExchangeError,
       market = (\<lambda>sym. Inr (Number 1)),
       create_order = (\<lambda>sym ty sd n ps. Inl ExchangeError),
       private_post_trade_order_algo = (\<lambda>ps. Inr (PDict [(''code'', PStr ''0'')]))\<rparr>"
  let ?ex0 = "\<lparr>load_markets = Some ExchangeError, private_get_account_config = Inl ExchangeError,
       market = (\<lambda>sym. Inr (Number 0)),
       create_order = (\<lambda>sym ty sd n ps. Inl ExchangeError),
       private_post_trade_order_algo = (\<lambda>ps. Inr (PDict [(''code'', PStr ''0'')]))\<rparr>"
  have c1: "contract_value ?ex1 sy = 1" for sy
    by (simp add: contract_value_def and_then_def)
  have c0: "contract_value ?ex0 sy = 0" for sy
    by (simp add: contract_value_def and_then_def)
  have h1: "markets_loaded ?warm \<or> load_markets ?ex1 = None" by simp
  have h0: "markets_loaded ?warm \<or> load_markets ?ex0 = None" by simp
  from protective_order_no_min_size [OF h1, of "1 / 1000" "''BTC''" True 70000 "''sell''"]
  have a: "(\<exists>params.
        fst (place_take_profit ?ex1 ''BTC'' True (1 / 1000) 70000 ?warm)
          = Inr (PDict [(''code'', PStr ''0'')])
        \<and> sent (snd (place_take_profit ?ex1 ''BTC'' True (1 / 1000) 70000 ?warm))
          = [PostTradeOrderAlgo params]
        \<and> map_of params ''sz'' = Some (Str ''0''))
     \<and> fst (place_market_order ?ex1 ''BTC'' ''sell'' (1 / 1000) ?warm)
       = Inr (PDict [(''code'', PStr ''error''), (''msg'', PStr ''Amount too small'')])
     \<and> sent (snd (place_market_order ?ex1 ''BTC'' ''sell'' (1 / 1000) ?warm)) = []"
    by (simp add: c1)
  from protective_order_no_min_size [OF h0, of "1 / 1000" "''BTC''" True 70000 "''sell''"]
  have b: "\<exists>params.
        sent (snd (place_stop_loss ?ex0 ''BTC'' True (1 / 1000) 70000 ?warm))
          = [PostTradeOrderAlgo params]
        \<and> map_of params ''sz'' = Some (Str ''1'')"
    by (simp add: c0)
  from a b h1 show ?thesis
    by (simp add: c1 c0)
qed

lemma placement_keeps_mode:
  "position_mode s \<noteq> None \<Longrightarrow>
   position_mode (snd (place_market_order ex asset side amount s)) = position_mode s
   \<and> position_mode (snd (place_take_profit ex asset is_buy amount px s)) = position_mode s
   \<and> position_mode (snd (place_stop_loss ex asset is_buy amount px s)) = position_mode s"
  by (auto simp: place_market_order_def place_take_profit_def place_stop_loss_def
        ensure_markets_def ensure_position_mode_def get_contract_value_def Let_def
        split: option.splits)

lemma py_get_Inr: "py_get v k = Inr w \<Longrightarrow> \<exists>kvs. v = PDict kvs"
  by (cases v) simp_all

lemma detect_long_short_shape:
  assumes "detect_position_mode answer = Inr ''long_short_mode''"
  shows "\<exists>kvs d rest. answer = Inr (PDict kvs)
           \<and> map_of kvs ''data'' = Some (PList (PDict d # rest))
           \<and> map_of d ''posMode'' = Some (PStr ''long_short_mode'')"
proof -
  from assms obtain res where a: "answer = Inr res"
    by (cases answer) (simp_all add: detect_position_mode_def and_then_def)
  from assms a obtain kvs where r: "res = PDict kvs"
    by (cases res) (simp_all add: detect_position_mode_def and_then_def)
  define dv where "dv = (case map_of kvs ''data'' of None \<Rightarrow> PNone | Some v \<Rightarrow> v)"
  define data_list where "data_list = (if truthy dv then dv else PList [])"
  have t: "truthy data_list"
  proof (rule ccontr)
    assume "\<not> truthy data_list"
    with assms a r show False
      by (simp add: detect_position_mode_def and_then_def Let_def dv_def data_list_def
            split: if_splits)
  qed
  then have dl: "data_list = dv" and tv: "truthy dv"
    by (auto simp: data_list_def split: if_splits)
  from assms a r tv obtain dat where f: "py_first dv = Inr dat"
    by (cases "py_first dv")
       (simp_all add: detect_position_mode_def and_then_def Let_def dv_def)
  from assms a r tv f obtain pm where g: "py_get dat ''posMode'' = Inr pm"
    by (cases "py_get dat ''posMode''")
       (simp_all add: detect_position_mode_def and_then_def Let_def dv_def)
  then obtain d where dd: "dat = PDict d"
    using py_get_Inr by blast
  from f dd obtain rest where l: "dv = PList (PDict d # rest)"
    by (cases dv rule: py_first.cases) simp_all
  from assms a r tv f g have "pm = PStr ''long_short_mode''"
    by (simp add: detect_position_mode_def and_then_def Let_def dv_def
          split: if_splits pyval.splits)
  with g dd have p: "map_of d ''posMode'' = Some (PStr ''long_short_mode'')"
    by (cases "map_of d ''posMode''") simp_all
  from l have "map_of kvs ''data'' = Some (PList (PDict d # rest))"
    by (cases "map_of kvs ''data''") (simp_all add: dv_def)
  with a r p show ?thesis by blast
qed

lemma ensure_position_mode_value:
  assumes "position_mode s = None"
  shows "position_mode (ensure_position_mode ex s)
     = Some (if (\<exists>kvs d rest. private_get_account_config ex = Inr (PDict kvs)
                   \<and> map_of kvs ''data'' = Some (PList (PDict d # rest))
                   \<and> map_of d ''posMode'' = Some (PStr ''long_short_mode''))
             then ''long_short_mode'' else ''net_mode'')"
proof (cases "\<exists>kvs d rest. private_get_account_config ex = Inr (PDict kvs)
                   \<and> map_of kvs ''data'' = Some (PList (PDict d # rest))
                   \<and> map_of d ''posMode'' = Some (PStr ''long_short_mode'')")
  case True
  then obtain kvs d rest where "private_get_account_config ex = Inr (PDict kvs)"
    "map_of kvs ''data'' = Some (PList (PDict d # rest))"
    "map_of d ''posMode'' = Some (PStr ''long_short_mode'')"
    by blast
  then have "detect_position_mode (private_get_account_config ex) = Inr ''long_short_mode''"
    using detect_recognised [of kvs d rest "''long_short_mode''"] by simp
  with assms True show ?thesis
    by (simp add: ensure_position_mode_def)
next
  case False
  then have ne: "detect_position_mode (private_get_account_config ex) \<noteq> Inr ''long_short_mode''"
    using detect_long_short_shape by blast
  have "position_mode (ensure_position_mode ex s) = Some ''net_mode''"
  proof (cases "detect_position_mode (private_get_account_config ex)")
    case (Inl e)
    with assms show ?thesis by (simp add: ensure_position_mode_def)
  next
    case (Inr m)
    with ne detect_position_mode_range [OF Inr] have "m = ''net_mode''" by auto
    with Inr assms show ?thesis by (simp add: ensure_position_mode_def)
  qed
  with False show ?thesis by simp
qed

text \<open>
  Claim C4. Starting from an unknown position mode, the first ensure-call sends one
  account-config query and leaves the mode at net or long/short. It is long/short exactly
  when the query answers a dictionary whose \<^verbatim>\<open>data\<close> is a list that starts with a
  dictionary whose \<^verbatim>\<open>posMode\<close> is \<^verbatim>\<open>"long_short_mode"\<close>, and net mode in
  every other case: the query fails, the answer names \<^verbatim>\<open>"net_mode"\<close> or another
  string, \<^verbatim>\<open>data\<close> is missing or empty, \<^verbatim>\<open>posMode\<close> is missing, null or not
  a string. Every later ensure-call, whatever the query would answer then, leaves the
  session as it is: the mode is the memoized one and no query is sent. Order placements do
  not change a known mode either.
\<close>

theorem position_mode_detected_once:
  assumes "position_mode s = None"
  shows
    "position_mode (ensure_position_mode ex s) \<in> {Some ''net_mode'', Some ''long_short_mode''}
     \<and> sent (ensure_position_mode ex s) = sent s @ [GetAccountConfig]
     \<and> fold ensure_position_mode later (ensure_position_mode ex s) = ensure_position_mode ex s
     \<and> (\<forall>e. private_get_account_config ex = Inl e \<longrightarrow>
           position_mode (ensure_position_mode ex s) = Some ''net_mode'')
     \<and> (\<forall>kvs d rest m.
           private_get_account_config ex = Inr (PDict kvs)
           \<and> map_of kvs ''data'' = Some (PList (PDict d # rest))
           \<and> map_of d ''posMode'' = Some (PStr m) \<longrightarrow>
           position_mode (ensure_position_mode ex s)
             = Some (if m = ''long_short_mode'' then ''long_short_mode'' else ''net_mode''))
     \<and> position_mode (snd (place_market_order ex' asset side amount (ensure_position_mode ex s)))
         = position_mode (ensure_position_mode ex s)
     \<and> position_mode (snd (place_take_profit ex' asset is_buy amount px (ensure_position_mode ex s)))
         = position_mode (ensure_position_mode ex s)
     \<and> position_mode (snd (place_stop_loss ex' asset is_buy amount px (ensure_position_mode ex s)))
         = position_mode (ensure_position_mode ex s)
     \<and> position_mode (ensure_position_mode ex s)
         = Some (if (\<exists>kvs d rest. private_get_account_config ex = Inr (PDict kvs)
                       \<and> map_of kvs ''data'' = Some (PList (PDict d # rest))
                       \<and> map_of d ''posMode'' = Some (PStr ''long_short_mode''))
                 then ''long_short_mode'' else ''net_mode'')
     \<and> (\<forall>kvs. private_get_account_config ex = Inr (PDict kvs)
           \<and> (map_of kvs ''data'' = None \<or> map_of kvs ''data'' = Some PNone
                \<or> map_of kvs ''data'' = Some (PList [])) \<longrightarrow>
           position_mode (ensure_position_mode ex s) = Some ''net_mode'')
     \<and> (\<forall>kvs d rest.
           private_get_account_config ex = Inr (PDict kvs)
           \<and> map_of kvs ''data'' = Some (PList (PDict d # rest))
           \<and> map_of d ''posMode'' \<noteq> Some (PStr ''long_short_mode'') \<longrightarrow>
           position_mode (ensure_position_mode ex s) = Some ''net_mode'')
     \<and> (\<forall>res. private_get_account_config ex = Inr res \<and> (\<forall>kvs. res \<noteq> PDict kvs) \<longrightarrow>
           position_mode (ensure_position_mode ex s) = Some ''net_mode'')"
proof -
  have first: "position_mode (ensure_position_mode ex s)
                 \<in> {Some ''net_mode'', Some ''long_short_mode''}
     \<and> sent (ensure_position_mode ex s) = sent s @ [GetAccountConfig]"
    using ensure_position_mode_first [OF assms, of ex] by simp
  then have known: "position_mode (ensure_position_mode ex s) \<noteq> None" by auto
  have later: "fold ensure_position_mode later (ensure_position_mode ex s)
                 = ensure_position_mode ex s"
    using known by (rule ensure_position_mode_fold)
  have failed: "position_mode (ensure_position_mode ex s) = Some ''net_mode''"
    if "private_get_account_config ex = Inl e" for e
    using that assms by (simp add: ensure_position_mode_def detect_position_mode_def and_then_def)
  have named: "position_mode (ensure_position_mode ex s)
             = Some (if m = ''long_short_mode'' then ''long_short_mode'' else ''net_mode'')"
    if "private_get_account_config ex = Inr (PDict kvs)
           \<and> map_of kvs ''data'' = Some (PList (PDict d # rest))
           \<and> map_of d ''posMode'' = Some (PStr m)" for kvs d rest m
    using that assms detect_recognised [of kvs d rest m]
    by (simp add: ensure_position_mode_def)
  note val = ensure_position_mode_value [OF assms, of ex]
  have nodata: "position_mode (ensure_position_mode ex s) = Some ''net_mode''"
    if "private_get_account_config ex = Inr (PDict kvs)
           \<and> (map_of kvs ''data'' = None \<or> map_of kvs ''data'' = Some PNone
                \<or> map_of kvs ''data'' = Some (PList []))" for kvs
    unfolding val using that by auto
  have other: "position_mode (ensure_position_mode ex s) = Some ''net_mode''"
    if "private_get_account_config ex = Inr (PDict kvs)
           \<and> map_of kvs ''data'' = Some (PList (PDict d # rest))
           \<and> map_of d ''posMode'' \<noteq> Some (PStr ''long_short_mode'')" for kvs d rest
    unfolding val using that by auto
  have nodict: "position_mode (ensure_position_mode ex s) = Some ''net_mode''"
    if "private_get_account_config ex = Inr res \<and> (\<forall>kvs. res \<noteq> PDict kvs)" for res
    unfolding val using that by auto
  from first later failed named placement_keeps_mode [OF known] val nodata other nodict
  show ?thesis
    by (intro conjI allI impI) blast+
qed

theorem position_mode_detected_once_witness:
  "position_mode OKXAPI_init = None
   \<and> position_mode (ensure_position_mode \<lparr>load_markets = None, private_get_account_config = Inr (PDict [(''data'', PList [PDict [(''posMode'', PStr ''long_short_mode'')]])]),
       market = (\<lambda>sym. Inr (Number 1)),
       create_order = (\<lambda>sym ty sd n ps. Inl ExchangeError),
       private_post_trade_order_algo = (\<lambda>ps. Inl ExchangeError)\<rparr> OKXAPI_init) = Some ''long_short_mode''
   \<and> sent (ensure_position_mode \<lparr>load_markets = None, private_get_account_config = Inr (PDict [(''data'', PList [PDict [(''posMode'', PStr ''long_short_mode'')]])]),
       market = (\<lambda>sym. Inr (Number 1)),
       create_order = (\<lambda>sym ty sd n ps. Inl ExchangeError),
       private_post_trade_order_algo = (\<lambda>ps. Inl ExchangeError)\<rparr> OKXAPI_init) = [GetAccountConfig]
   \<and> fold ensure_position_mode [\<lparr>load_markets = None, private_get_account_config = Inr (PDict [(''data'', PList [PDict [(''posMode'', PStr ''net_mode'')]])]),
       market = (\<lambda>sym. Inr (Number 1)),
       create_order = (\<lambda>sym ty sd n ps. Inl ExchangeError),
       private_post_trade_order_algo = (\<lambda>ps. Inl ExchangeError)\<rparr>, \<lparr>load_markets = None, private_get_account_config = Inl ExchangeError,
       market = (\<lambda>sym. Inr (Number 1)),
       create_order = (\<lambda>sym ty sd n ps. Inl ExchangeError),
       private_post_trade_order_algo = (\<lambda>ps. Inl ExchangeError)\<rparr>] (ensure_position_mode \<lparr>load_markets = None, private_get_account_config = Inr (PDict [(''data'', PList [PDict [(''posMode'', PStr ''long_short_mode'')]])]),
       market = (\<lambda>sym. Inr (Number 1)),
       create_order = (\<lambda>sym ty sd n ps. Inl ExchangeError),
       private_post_trade_order_algo = (\<lambda>ps. Inl ExchangeError)\<rparr> OKXAPI_init)
       = ensure_position_mode \<lparr>load_markets = None, private_get_account_config = Inr (PDict [(''data'', PList [PDict [(''posMode'', PStr ''long_short_mode'')]])]),
       market = (\<lambda>sym. Inr (Number 1)),
       create_order = (\<lambda>sym ty sd n ps. Inl ExchangeError),
       private_post_trade_order_algo = (\<lambda>ps. Inl ExchangeError)\<rparr> OKXAPI_init
   \<and> position_mode (ensure_position_mode \<lparr>load_markets = None, private_get_account_config = Inl ExchangeError,
       market = (\<lambda>sym. Inr (Number 1)),
       create_order = (\<lambda>sym ty sd n ps. Inl ExchangeError),
       private_post_trade_order_algo = (\<lambda>ps. Inl ExchangeError)\<rparr> OKXAPI_init) = Some ''net_mode''
   \<and> position_mode (ensure_position_mode \<lparr>load_markets = None, private_get_account_config = Inr (PDict [(''code'', PStr ''0''), (''data'', PList [])]),
       market = (\<lambda>sym. Inr (Number 1)),
       create_order = (\<lambda>sym ty sd n ps. Inl ExchangeError),
       private_post_trade_order_algo = (\<lambda>ps. Inl ExchangeError)\<rparr> OKXAPI_init) = Some ''net_mode''
   \<and> position_mode (ensure_position_mode \<lparr>load_markets = None, private_get_account_config = Inr (PDict [(''data'', PList [PDict [(''posMode'', PNone)]])]),
       market = (\<lambda>sym. Inr (Number 1)),
       create_order = (\<lambda>sym ty sd n ps. Inl ExchangeError),
       private_post_trade_order_algo = (\<lambda>ps. Inl ExchangeError)\<rparr> OKXAPI_init) = Some ''net_mode''"
proof -
  have h: "position_mode OKXAPI_init = None"
    by (simp add: OKXAPI_init_def)
  have e: "sent OKXAPI_init = []"
    by (simp add: OKXAPI_init_def)
  from position_mode_detected_once [OF h, of "\<lparr>load_markets = None, private_get_account_config = Inr (PDict [(''data'', PList [PDict [(''posMode'', PStr ''long_short_mode'')]])]),
       market = (\<lambda>sym. Inr (Number 1)),
       create_order = (\<lambda>sym ty sd n ps. Inl ExchangeError),
       private_post_trade_order_algo = (\<lambda>ps. Inl ExchangeError)\<rparr>" "[\<lparr>load_markets = None, private_get_account_config = Inr (PDict [(''data'', PList [PDict [(''posMode'', PStr ''net_mode'')]])]),
       market = (\<lambda>sym. Inr (Number 1)),
       create_order = (\<lambda>sym ty sd n ps. Inl ExchangeError),
       private_post_trade_order_algo = (\<lambda>ps. Inl ExchangeError)\<rparr>, \<lparr>load_markets = None, private_get_account_config = Inl ExchangeError,
       market = (\<lambda>sym. Inr (Number 1)),
       create_order = (\<lambda>sym ty sd n ps. Inl ExchangeError),
       private_post_trade_order_algo = (\<lambda>ps. Inl ExchangeError)\<rparr>]"]
  have a: "position_mode (ensure_position_mode \<lparr>load_markets = None, private_get_account_config = Inr (PDict [(''data'', PList [PDict [(''posMode'', PStr ''long_short_mode'')]])]),
       market = (\<lambda>sym. Inr (Number 1)),
       create_order = (\<lambda>sym ty sd n ps. Inl ExchangeError),
       private_post_trade_order_algo = (\<lambda>ps. Inl ExchangeError)\<rparr> OKXAPI_init) = Some ''long_short_mode''
     \<and> sent (ensure_position_mode \<lparr>load_markets = None, private_get_account_config = Inr (PDict [(''data'', PList [PDict [(''posMode'', PStr ''long_short_mode'')]])]),
       market = (\<lambda>sym. Inr (Number 1)),
       create_order = (\<lambda>sym ty sd n ps. Inl ExchangeError),
       private_post_trade_order_algo = (\<lambda>ps. Inl ExchangeError)\<rparr> OKXAPI_init) = [GetAccountConfig]
     \<and> fold ensure_position_mode [\<lparr>load_markets = None, private_get_account_config = Inr (PDict [(''data'', PList [PDict [(''posMode'', PStr ''net_mode'')]])]),
       market = (\<lambda>sym. Inr (Number 1)),
       create_order = (\<lambda>sym ty sd n ps. Inl ExchangeError),
       private_post_trade_order_algo = (\<lambda>ps. Inl ExchangeError)\<rparr>, \<lparr>load_markets = None, private_get_account_config = Inl ExchangeError,
       market = (\<lambda>sym. Inr (Number 1)),
       create_order = (\<lambda>sym ty sd n ps. Inl ExchangeError),
       private_post_trade_order_algo = (\<lambda>ps. Inl ExchangeError)\<rparr>] (ensure_position_mode \<lparr>load_markets = None, private_get_account_config = Inr (PDict [(''data'', PList [PDict [(''posMode'', PStr ''long_short_mode'')]])]),
       market = (\<lambda>sym. Inr (Number 1)),
       create_order = (\<lambda>sym ty sd n ps. Inl ExchangeError),
       private_post_trade_order_algo = (\<lambda>ps. Inl ExchangeError)\<rparr> OKXAPI_init)
         = ensure_position_mode \<lparr>load_markets = None, private_get_account_config = Inr (PDict [(''data'', PList [PDict [(''posMode'', PStr ''long_short_mode'')]])]),
       market = (\<lambda>sym. Inr (Number 1)),
       create_order = (\<lambda>sym ty sd n ps. Inl ExchangeError),
       private_post_trade_order_algo = (\<lambda>ps. Inl ExchangeError)\<rparr> OKXAPI_init"
    by (simp add: e)
  from position_mode_detected_once [OF h, of "\<lparr>load_markets = None, private_get_account_config = Inl ExchangeError,
       market = (\<lambda>sym. Inr (Number 1)),
       create_order = (\<lambda>sym ty sd n ps. Inl ExchangeError),
       private_post_trade_order_algo = (\<lambda>ps. Inl ExchangeError)\<rparr>"]
  have b: "position_mode (ensure_position_mode \<lparr>load_markets = None, private_get_account_config = Inl ExchangeError,
       market = (\<lambda>sym. Inr (Number 1)),
       create_order = (\<lambda>sym ty sd n ps. Inl ExchangeError),
       private_post_trade_order_algo = (\<lambda>ps. Inl ExchangeError)\<rparr> OKXAPI_init) = Some ''net_mode''"
    by simp
  from position_mode_detected_once [OF h, of "\<lparr>load_markets = None, private_get_account_config = Inr (PDict [(''code'', PStr ''0''), (''data'', PList [])]),
       market = (\<lambda>sym. Inr (Number 1)),
       create_order = (\<lambda>sym ty sd n ps. Inl ExchangeError),
       private_post_trade_order_algo = (\<lambda>ps. Inl ExchangeError)\<rparr>"]
  have c: "position_mode (ensure_position_mode \<lparr>load_markets = None, private_get_account_config = Inr (PDict [(''code'', PStr ''0''), (''data'', PList [])]),
       market = (\<lambda>sym. Inr (Number 1)),
       create_order = (\<lambda>sym ty sd n ps. Inl ExchangeError),
       private_post_trade_order_algo = (\<lambda>ps. Inl ExchangeError)\<rparr> OKXAPI_init) = Some ''net_mode''"
    by simp
  from position_mode_detected_once [OF h, of "\<lparr>load_markets = None, private_get_account_config = Inr (PDict [(''data'', PList [PDict [(''posMode'', PNone)]])]),
       market = (\<lambda>sym. Inr (Number 1)),
       create_order = (\<lambda>sym ty sd n ps. Inl ExchangeError),
       private_post_trade_order_algo = (\<lambda>ps. Inl ExchangeError)\<rparr>"]
  have d: "position_mode (ensure_position_mode \<lparr>load_markets = None, private_get_account_config = Inr (PDict [(''data'', PList [PDict [(''posMode'', PNone)]])]),
       market = (\<lambda>sym. Inr (Number 1)),
       create_order = (\<lambda>sym ty sd n ps. Inl ExchangeError),
       private_post_trade_order_algo = (\<lambda>ps. Inl ExchangeError)\<rparr> OKXAPI_init) = Some ''net_mode''"
    by simp
  from h a b c d show ?thesis by blast
qed


end
